theory Spec2Isabelle
  imports Complex_Main "HOL-Library.Char_ord" "HOL-Library.List_Lexorder" "HOL-Library.Log_Nat"
begin

section \<open>JavaScript values\<close>

text \<open>
  The handlers of the backend (\<^verbatim>\<open>src/unnamed/part_000\<close>) read a path parameter, which
  is a string, and two fields of the parsed JSON body, which are arbitrary JSON values.
  A JavaScript number is a double; the model keeps the value of a finite double as a
  rational (the two zeros are one value, both are falsy and both are integers).
\<close>

datatype jsnum = NaN | PosInf | NegInf | Fin rat

datatype jsval =
    JUndefined
  | JNull
  | JBool bool
  | JNum jsnum
  | JStr string
  | JArr "jsval list"
  | JObj "(string \<times> jsval) list"

text \<open>\<^verbatim>\<open>!v\<close> is true for exactly the falsy values: undefined, null, false, 0, NaN
  and the empty string.\<close>

fun truthy :: "jsval \<Rightarrow> bool" where
  "truthy JUndefined = False"
| "truthy JNull = False"
| "truthy (JBool b) = b"
| "truthy (JNum n) = (n \<noteq> NaN \<and> n \<noteq> Fin 0)"
| "truthy (JStr s) = (s \<noteq> [])"
| "truthy (JArr xs) = True"
| "truthy (JObj kvs) = True"

text \<open>\<^verbatim>\<open>Number.isInteger(x)\<close> for a value that is a number: finite, with no fraction.\<close>

fun isInteger :: "jsnum \<Rightarrow> bool" where
  "isInteger (Fin q) = (of_int \<lfloor>q\<rfloor> = q)"
| "isInteger NaN = False"
| "isInteger PosInf = False"
| "isInteger NegInf = False"

section \<open>\<^verbatim>\<open>Number(string)\<close>\<close>

text \<open>
  \<^verbatim>\<open>const id = Number(req.params.id)\<close> applies the language's StringToNumber: the string,
  with white space and line terminators stripped at both ends, is read by the grammar
  StringNumericLiteral, and its mathematical value is rounded to the nearest double
  (ties to even). A string the grammar rejects gives NaN; the empty string gives 0.
  A string is a list of UTF-16 code units. (The language lets an engine read the digits
  after the twentieth significant one as zeros; the model rounds the exact value, as
  Node's engine does.)
\<close>

type_synonym jsstring = "nat list"

definition ustr :: "string \<Rightarrow> jsstring" where
  "ustr s = map of_char s"

definition StrWhiteSpaceChar :: "nat \<Rightarrow> bool" where
  "StrWhiteSpaceChar c =
     (c \<in> set [9, 10, 11, 12, 13, 32, 160, 5760, 8232, 8233, 8239, 8287, 12288, 65279]
      \<or> (8192 \<le> c \<and> c \<le> 8202))"

definition trim :: "jsstring \<Rightarrow> jsstring" where
  "trim s = rev (dropWhile StrWhiteSpaceChar (rev (dropWhile StrWhiteSpaceChar s)))"

text \<open>The value of a digit in a radix: \<^verbatim>\<open>0-9\<close>, \<^verbatim>\<open>a-f\<close>, \<^verbatim>\<open>A-F\<close>.\<close>

definition digit_val :: "nat \<Rightarrow> nat \<Rightarrow> nat option" where
  "digit_val radix c =
     (let v = (if 48 \<le> c \<and> c \<le> 57 then Some (c - 48)
               else if 97 \<le> c \<and> c \<le> 102 then Some (c - 87)
               else if 65 \<le> c \<and> c \<le> 70 then Some (c - 55)
               else None)
      in case v of None \<Rightarrow> None | Some d \<Rightarrow> if d < radix then Some d else None)"

fun digits_val :: "nat \<Rightarrow> jsstring \<Rightarrow> nat \<Rightarrow> nat option" where
  "digits_val radix [] acc = Some acc"
| "digits_val radix (c # cs) acc =
     (case digit_val radix c of
        None \<Rightarrow> None
      | Some d \<Rightarrow> digits_val radix cs (acc * radix + d))"

definition is_digit :: "nat \<Rightarrow> bool" where
  "is_digit c = (48 \<le> c \<and> c \<le> 57)"

text \<open>One or more digits of the radix, and nothing else.\<close>

definition all_digits :: "nat \<Rightarrow> jsstring \<Rightarrow> nat option" where
  "all_digits radix s = (if s = [] then None else digits_val radix s 0)"

text \<open>NonDecimalIntegerLiteral: \<^verbatim>\<open>0x\<close>, \<^verbatim>\<open>0o\<close>, \<^verbatim>\<open>0b\<close> (either case) and digits;
  no sign is allowed.\<close>

definition non_decimal :: "jsstring \<Rightarrow> nat option" where
  "non_decimal s =
     (case s of
        z # p # ds \<Rightarrow>
          if z \<noteq> 48 then None
          else if p = 120 \<or> p = 88 then all_digits 16 ds
          else if p = 111 \<or> p = 79 then all_digits 8 ds
          else if p = 98 \<or> p = 66 then all_digits 2 ds
          else None
      | _ \<Rightarrow> None)"

text \<open>Rounding the rational \<open>p / q\<close> (\<open>q > 0\<close>) to the nearest double, ties to even:
  the binary exponent of the value, clamped below at the subnormal exponent, fixes the
  spacing \<open>2 ^ (E - 52)\<close> of the doubles around it.\<close>

definition round_half_even :: "nat \<Rightarrow> nat \<Rightarrow> nat" where
  "round_half_even p q =
     (let n = p div q; r = p mod q
      in if 2 * r < q then n
         else if q < 2 * r then n + 1
         else if even n then n else n + 1)"

definition binary_exponent :: "nat \<Rightarrow> nat \<Rightarrow> int" where
  "binary_exponent p q =
     (let k = bitlen (int p) - bitlen (int q)
      in if (if 0 \<le> k then q * 2 ^ nat k \<le> p else q \<le> p * 2 ^ nat (- k)) then k else k - 1)"

definition to_double :: "nat \<Rightarrow> nat \<Rightarrow> jsnum" where
  "to_double p q =
     (if p = 0 then Fin 0
      else
        let E = max (binary_exponent p q) (- 1022);
            s = E - 52;
            n = (if 0 \<le> s then round_half_even p (q * 2 ^ nat s)
                 else round_half_even (p * 2 ^ nat (- s)) q)
        in if 1023 < E \<or> (E = 1023 \<and> n = 2 ^ 53) then PosInf
           else if 0 \<le> s then Fin (of_nat (n * 2 ^ nat s))
           else Fin (of_nat n / 2 ^ nat (- s)))"

text \<open>SignedInteger of an exponent part: an optional sign and one or more digits.\<close>

definition signed_integer :: "jsstring \<Rightarrow> int option" where
  "signed_integer s =
     (case s of
        [] \<Rightarrow> None
      | c # r \<Rightarrow>
          if c = 45 then map_option (\<lambda>n. - int n) (all_digits 10 r)
          else if c = 43 then map_option int (all_digits 10 r)
          else map_option int (all_digits 10 s))"

text \<open>StrUnsignedDecimalLiteral: \<^verbatim>\<open>Infinity\<close>, or digits with an optional fraction and
  an optional exponent; at least one digit stands before or after the point.\<close>

definition unsigned_decimal :: "jsstring \<Rightarrow> jsnum" where
  "unsigned_decimal s =
     (if s = [73, 110, 102, 105, 110, 105, 116, 121] then PosInf
      else
        let ip = takeWhile is_digit s;
            r1 = dropWhile is_digit s;
            dot = (r1 \<noteq> [] \<and> hd r1 = 46);
            fp = (if dot then takeWhile is_digit (tl r1) else []);
            r2 = (if dot then dropWhile is_digit (tl r1) else r1);
            ex = (if r2 = [] then Some 0
                  else if hd r2 = 101 \<or> hd r2 = 69 then signed_integer (tl r2)
                  else None)
        in if ip = [] \<and> fp = [] then NaN
           else
             case (digits_val 10 (ip @ fp) 0, ex) of
               (Some m, Some e) \<Rightarrow>
                 (let e' = e - int (length fp)
                  in if 0 \<le> e' then to_double (m * 10 ^ nat e') 1
                     else to_double m (10 ^ nat (- e')))
             | _ \<Rightarrow> NaN)"

fun negate :: "jsnum \<Rightarrow> jsnum" where
  "negate NaN = NaN"
| "negate PosInf = NegInf"
| "negate NegInf = PosInf"
| "negate (Fin q) = Fin (- q)"

definition Number :: "jsstring \<Rightarrow> jsnum" where
  "Number s =
     (let t = trim s
      in if t = [] then Fin 0
         else
           case non_decimal t of
             Some n \<Rightarrow> to_double n 1
           | None \<Rightarrow>
               if hd t = 45 then negate (unsigned_decimal (tl t))
               else if hd t = 43 then unsigned_decimal (tl t)
               else unsigned_decimal t)"

section \<open>The process and the connection pool\<close>

text \<open>
  The database is an external collaborator reached through \<^verbatim>\<open>pool.query(text, values)\<close>.
  A driver is what the pool and the server behind it do with one statement: it answers
  with the result rows or rejects with an error, it may change the stored state, and it
  tells which events the pool emitted while the statement was in flight: \<open>Connect\<close>
  when the pool opened a new client for it, \<open>PoolError\<close> when an idle client of the
  pool failed. Every handler takes the driver as a parameter, so a property proved for
  all drivers holds whatever the database and the pool do.
\<close>

datatype js_error = Error (message: string)

datatype pool_event = Connect | PoolError js_error

type_synonym 'db driver =
  "string \<Rightarrow> jsval list \<Rightarrow> 'db \<Rightarrow> (js_error + jsval list) \<times> 'db \<times> pool_event list"

text \<open>What \<^verbatim>\<open>console.log\<close> and \<^verbatim>\<open>console.error\<close> are given: text, an error
  object, or the JSON text of a value (\<^verbatim>\<open>JSON.stringify\<close>).\<close>

datatype console_arg = Text string | ErrObj js_error | Json jsval

datatype log_entry = ConsoleLog "console_arg list" | ConsoleError "console_arg list"

text \<open>
  The state a request can touch: the database behind the pool, the statements submitted
  to the pool so far (SQL text and bound values, in order), the console, the clock read
  by \<^verbatim>\<open>new Date().toISOString()\<close>, the pool's connection counters, whether
  \<^verbatim>\<open>app.listen\<close> has bound the HTTP listener, and the exit code once
  \<^verbatim>\<open>process.exit\<close> has run.
\<close>

record 'db world =
  database :: 'db
  issued :: "(string \<times> jsval list) list"
  console :: "log_entry list"
  clock :: string
  totalCount :: nat
  idleCount :: nat
  waitingCount :: nat
  listening :: bool
  exit_code :: "nat option"

text \<open>The two listeners \<^verbatim>\<open>database.js\<close> registers on the pool,
  \<^verbatim>\<open>pool.on('connect', ...)\<close> and \<^verbatim>\<open>pool.on('error', ...)\<close>: each event of the
  pool writes one line to the console.\<close>

fun pool_listener :: "pool_event \<Rightarrow> log_entry" where
  "pool_listener Connect = ConsoleLog [Text ''Connected to PostgreSQL database'']"
| "pool_listener (PoolError err) = ConsoleError [Text ''Unexpected database error:'', ErrObj err]"

text \<open>\<^verbatim>\<open>await pool.query(text, values)\<close>: the statement is recorded, the driver
  runs it, and the listeners log the events the pool emitted meanwhile.\<close>

definition pool_query ::
  "'db driver \<Rightarrow> string \<Rightarrow> jsval list \<Rightarrow> 'db world \<Rightarrow> (js_error + jsval list) \<times> 'db world" where
  "pool_query q sql vals w =
     (case q sql vals (database w) of
        (r, d, events) \<Rightarrow>
          (r, w\<lparr>database := d, issued := issued w @ [(sql, vals)],
                 console := console w @ map pool_listener events\<rparr>))"

definition console_log :: "console_arg list \<Rightarrow> 'db world \<Rightarrow> 'db world" where
  "console_log args w = w\<lparr>console := console w @ [ConsoleLog args]\<rparr>"

definition console_error :: "console_arg list \<Rightarrow> 'db world \<Rightarrow> 'db world" where
  "console_error args w = w\<lparr>console := console w @ [ConsoleError args]\<rparr>"

text \<open>\<^verbatim>\<open>logger.error(msg, meta)\<close>: one JSON line with level, message, the fields of
  \<^verbatim>\<open>meta\<close> and the timestamp.\<close>

definition logger_error :: "string \<Rightarrow> (string \<times> jsval) list \<Rightarrow> 'db world \<Rightarrow> 'db world" where
  "logger_error msg meta w =
     console_error
       [Json (JObj ([(''level'', JStr ''error''), (''msg'', JStr msg)] @ meta
                    @ [(''timestamp'', JStr (clock w))]))] w"

section \<open>The route handlers\<close>

text \<open>A request as a handler reads it: \<^verbatim>\<open>req.params.id\<close> and the fields \<^verbatim>\<open>name\<close>
  and \<^verbatim>\<open>email\<close> of \<^verbatim>\<open>req.body\<close> (\<open>JUndefined\<close> when the field is absent).\<close>

record request =
  params_id :: jsstring
  body_name :: jsval
  body_email :: jsval

text \<open>A response: the status and the JSON body; \<^verbatim>\<open>res.status(204).send()\<close> has no
  body.\<close>

datatype response = Response (status: nat) (body: "jsval option")

definition json_error :: "nat \<Rightarrow> string \<Rightarrow> response" where
  "json_error code msg = Response code (Some (JObj [(''error'', JStr msg)]))"

text \<open>\<^verbatim>\<open>result.rows[0]\<close>: reading past the end of an array gives undefined.\<close>

definition rows0 :: "jsval list \<Rightarrow> jsval" where
  "rows0 rows = (case rows of [] \<Rightarrow> JUndefined | r # _ \<Rightarrow> r)"

text \<open>
  \<^verbatim>\<open>app.get('/api/users', ...)\<close>. The source declares this one handler without
  \<^verbatim>\<open>async\<close> although its body awaits the query; the definition below is the body
  with \<^verbatim>\<open>await\<close> read as in the four sibling handlers.
\<close>

definition get_api_users :: "'db driver \<Rightarrow> request \<Rightarrow> 'db world \<Rightarrow> response \<times> 'db world" where
  "get_api_users q req w =
     (case pool_query q ''SELECT id, name, email FROM users ORDER BY id'' [] w of
        (Inr rows, w') \<Rightarrow> (Response 200 (Some (JArr rows)), w')
      | (Inl e, w') \<Rightarrow>
          (json_error 500 ''Internal server error'',
           logger_error ''Error fetching users''
             [(''endpoint'', JStr ''/api/users''), (''error'', JStr (message e))] w'))"

text \<open>\<^verbatim>\<open>app.post('/api/users', ...)\<close>\<close>

definition post_api_users :: "'db driver \<Rightarrow> request \<Rightarrow> 'db world \<Rightarrow> response \<times> 'db world" where
  "post_api_users q req w =
     (if \<not> truthy (body_name req) \<or> \<not> truthy (body_email req)
      then (json_error 400 ''Name and email required'', w)
      else
        case pool_query q ''INSERT INTO users (name, email) VALUES ($1, $2) RETURNING *''
               [body_name req, body_email req] w of
          (Inr rows, w') \<Rightarrow> (Response 201 (Some (rows0 rows)), w')
        | (Inl e, w') \<Rightarrow>
            (json_error 500 ''Internal server error'',
             console_error [Text ''Error creating user:'', ErrObj e] w'))"

text \<open>\<^verbatim>\<open>app.get('/api/users/:id', ...)\<close>\<close>

definition get_api_users_id :: "'db driver \<Rightarrow> request \<Rightarrow> 'db world \<Rightarrow> response \<times> 'db world" where
  "get_api_users_id q req w =
     (let id = Number (params_id req)
      in if \<not> isInteger id then (json_error 400 ''Invalid user id'', w)
         else
           case pool_query q ''SELECT id, name, email FROM users WHERE id = $1'' [JNum id] w of
             (Inr rows, w') \<Rightarrow>
               if length rows = 0 then (json_error 404 ''User not found'', w')
               else (Response 200 (Some (rows0 rows)), w')
           | (Inl e, w') \<Rightarrow>
               (json_error 500 ''Internal server error'',
                console_error [Text ''Error fetching user:'', ErrObj e] w'))"

text \<open>\<^verbatim>\<open>app.put('/api/users/:id', ...)\<close>\<close>

definition put_api_users_id :: "'db driver \<Rightarrow> request \<Rightarrow> 'db world \<Rightarrow> response \<times> 'db world" where
  "put_api_users_id q req w =
     (let id = Number (params_id req)
      in if \<not> isInteger id then (json_error 400 ''Invalid user id'', w)
         else if \<not> truthy (body_name req) \<or> \<not> truthy (body_email req)
         then (json_error 400 ''Name and email required'', w)
         else
           case pool_query q
                  ''UPDATE users SET name = $1, email = $2 WHERE id = $3 RETURNING id, name, email''
                  [body_name req, body_email req, JNum id] w of
             (Inr rows, w') \<Rightarrow>
               if length rows = 0 then (json_error 404 ''User not found'', w')
               else (Response 200 (Some (rows0 rows)), w')
           | (Inl e, w') \<Rightarrow>
               (json_error 500 ''Internal server error'',
                console_error [Text ''Error updating user:'', ErrObj e] w'))"

text \<open>\<^verbatim>\<open>app.delete('/api/users/:id', ...)\<close>\<close>

definition delete_api_users_id :: "'db driver \<Rightarrow> request \<Rightarrow> 'db world \<Rightarrow> response \<times> 'db world" where
  "delete_api_users_id q req w =
     (let id = Number (params_id req)
      in if \<not> isInteger id then (json_error 400 ''Invalid user id'', w)
         else
           case pool_query q ''DELETE FROM users WHERE id = $1 RETURNING id'' [JNum id] w of
             (Inr rows, w') \<Rightarrow>
               if length rows = 0 then (json_error 404 ''User not found'', w')
               else (Response 204 None, w')
           | (Inl e, w') \<Rightarrow>
               (json_error 500 ''Internal server error'',
                console_error [Text ''Error deleting user:'', ErrObj e] w'))"

text \<open>The two probes, \<^verbatim>\<open>app.get('/health', ...)\<close> and
  \<^verbatim>\<open>app.get('/api/status', ...)\<close>, answer without a query.\<close>

definition get_health :: "request \<Rightarrow> 'db world \<Rightarrow> response \<times> 'db world" where
  "get_health req w =
     (Response 200 (Some (JObj [(''status'', JStr ''healthy''), (''timestamp'', JStr (clock w))])), w)"

definition get_api_status :: "request \<Rightarrow> 'db world \<Rightarrow> response \<times> 'db world" where
  "get_api_status req w =
     (Response 200 (Some (JObj
        [(''server'', JStr ''healthy''),
         (''database'', JObj
            [(''totalCount'', JNum (Fin (of_nat (totalCount w)))),
             (''idleCount'', JNum (Fin (of_nat (idleCount w)))),
             (''waitingCount'', JNum (Fin (of_nat (waitingCount w))))])])), w)"

text \<open>The routes of the HTTP surface and their handlers. (The two
  \<^verbatim>\<open>/api/auth\<close> routes of the source are unfinished stubs that never touch the pool
  and never answer; they are left out.)\<close>

datatype route = Health | Status | ListUsers | CreateUser | GetUser | UpdateUser | DeleteUser

fun handle :: "'db driver \<Rightarrow> route \<Rightarrow> request \<Rightarrow> 'db world \<Rightarrow> response \<times> 'db world" where
  "handle q Health = get_health"
| "handle q Status = get_api_status"
| "handle q ListUsers = get_api_users q"
| "handle q CreateUser = post_api_users q"
| "handle q GetUser = get_api_users_id q"
| "handle q UpdateUser = put_api_users_id q"
| "handle q DeleteUser = delete_api_users_id q"

text \<open>The statements a run added to the pool's log, and a property of a JSON object
  (\<^verbatim>\<open>obj.key\<close>, undefined when absent).\<close>

definition new_issued :: "'db world \<Rightarrow> 'db world \<Rightarrow> (string \<times> jsval list) list" where
  "new_issued w w' = drop (length (issued w)) (issued w')"

definition get_field :: "string \<Rightarrow> jsval \<Rightarrow> jsval" where
  "get_field k v =
     (case v of
        JObj kvs \<Rightarrow> (case map_of kvs k of Some x \<Rightarrow> x | None \<Rightarrow> JUndefined)
      | _ \<Rightarrow> JUndefined)"

section \<open>Schema initialization, migrations and startup\<close>

text \<open>The part of the file system \<^verbatim>\<open>database.js\<close> reads: directories with their
  entries, and files with their text.\<close>

record filesystem =
  dirs :: "string \<rightharpoonup> string list"
  files :: "string \<rightharpoonup> string"

definition existsSync :: "filesystem \<Rightarrow> string \<Rightarrow> bool" where
  "existsSync fs p = (dirs fs p \<noteq> None \<or> files fs p \<noteq> None)"

definition readdirSync :: "filesystem \<Rightarrow> string \<Rightarrow> js_error + string list" where
  "readdirSync fs p =
     (case dirs fs p of
        Some names \<Rightarrow> Inr names
      | None \<Rightarrow> if files fs p \<noteq> None then Inl (Error ''ENOTDIR'') else Inl (Error ''ENOENT''))"

definition readFileSync :: "filesystem \<Rightarrow> string \<Rightarrow> js_error + string" where
  "readFileSync fs p =
     (case files fs p of
        Some txt \<Rightarrow> Inr txt
      | None \<Rightarrow> if dirs fs p \<noteq> None then Inl (Error ''EISDIR'') else Inl (Error ''ENOENT''))"

text \<open>\<^verbatim>\<open>path.join(a, b)\<close>, without the normalisation of \<^verbatim>\<open>..\<close>: the file
  system above is keyed by the joined text.\<close>

definition path_join :: "string \<Rightarrow> string \<Rightarrow> string" where
  "path_join a b = a @ ''/'' @ b"

definition endsWith :: "string \<Rightarrow> string \<Rightarrow> bool" where
  "endsWith s suffix = (length suffix \<le> length s \<and> drop (length s - length suffix) s = suffix)"

text \<open>The loop of \<^verbatim>\<open>runMigrations\<close>: a file that cannot be read, or a statement the
  pool rejects, ends the loop with that error.\<close>

fun run_files ::
  "'db driver \<Rightarrow> filesystem \<Rightarrow> string \<Rightarrow> string list \<Rightarrow> 'db world \<Rightarrow> (js_error + unit) \<times> 'db world" where
  "run_files q fs dir [] w = (Inr (), w)"
| "run_files q fs dir (file # rest) w =
     (let w1 = console_log [Text (''Running migration: '' @ file)] w
      in case readFileSync fs (path_join dir file) of
           Inl e \<Rightarrow> (Inl e, w1)
         | Inr sql \<Rightarrow>
             (case pool_query q sql [] w1 of
                (Inl e, w2) \<Rightarrow> (Inl e, w2)
              | (Inr rows, w2) \<Rightarrow>
                  run_files q fs dir rest
                    (console_log [Text (''Migration '' @ file @ '' completed'')] w2)))"

text \<open>The pool accepts each statement of a list, submitted one after the other without
  bound values, the first of them in the state \<open>d\<close> of the database and each later one
  in the state its predecessor left.\<close>

fun accepted_in_turn :: "'db driver \<Rightarrow> string list \<Rightarrow> 'db \<Rightarrow> bool" where
  "accepted_in_turn q [] d = True"
| "accepted_in_turn q (sql # rest) d =
     (case q sql [] d of
        (Inr rows, d', events) \<Rightarrow> accepted_in_turn q rest d'
      | (Inl e, d', events) \<Rightarrow> False)"

text \<open>The SQL files of a directory listing, in the order \<^verbatim>\<open>runMigrations\<close> takes
  them: \<^verbatim>\<open>.filter(file => file.endsWith('.sql')).sort()\<close>. The default sort
  compares strings unit by unit, a proper prefix first; file names are strings of 8-bit
  characters here, ordered the same way.\<close>

definition migration_files :: "string list \<Rightarrow> string list" where
  "migration_files names = sort (filter (\<lambda>file. endsWith file ''.sql'') names)"

definition runMigrations ::
  "'db driver \<Rightarrow> filesystem \<Rightarrow> string \<Rightarrow> 'db world \<Rightarrow> (js_error + unit) \<times> 'db world" where
  "runMigrations q fs dirname w =
     (let migrationsDir = path_join dirname ''../migrations''
      in if \<not> existsSync fs migrationsDir
         then (Inr (), console_log [Text ''No migrations directory found, skipping migrations''] w)
         else
           case readdirSync fs migrationsDir of
             Inl e \<Rightarrow> (Inl e, w)
           | Inr names \<Rightarrow> run_files q fs migrationsDir (migration_files names) w)"

definition initializeDatabase ::
  "'db driver \<Rightarrow> filesystem \<Rightarrow> string \<Rightarrow> 'db world \<Rightarrow> (js_error + unit) \<times> 'db world" where
  "initializeDatabase q fs dirname w =
     (let w1 = console_log [Text ''Initializing database schema...''] w
      in case readFileSync fs (path_join dirname ''schema.sql'') of
           Inl e \<Rightarrow> (Inl e, console_error [Text ''Error initializing database:'', ErrObj e] w1)
         | Inr schemaSQL \<Rightarrow>
             (case pool_query q schemaSQL [] w1 of
                (Inl e, w2) \<Rightarrow>
                  (Inl e, console_error [Text ''Error initializing database:'', ErrObj e] w2)
              | (Inr rows, w2) \<Rightarrow>
                  (Inr (), console_log [Text ''Database schema initialized successfully''] w2)))"

text \<open>The environment of the process: \<^verbatim>\<open>process.env.PORT\<close>,
  \<^verbatim>\<open>process.env.NODE_ENV\<close>, and the error \<^verbatim>\<open>app.listen\<close> throws when it rejects
  its arguments (none when it binds).\<close>

record environment =
  PORT :: "string option"
  NODE_ENV :: "string option"
  listen_error :: "js_error option"

text \<open>\<^verbatim>\<open>process.env.PORT || 3000\<close>, as the template string prints it.\<close>

definition port_text :: "environment \<Rightarrow> string" where
  "port_text env = (case PORT env of None \<Rightarrow> ''3000'' | Some p \<Rightarrow> if p = [] then ''3000'' else p)"

definition start ::
  "'db driver \<Rightarrow> filesystem \<Rightarrow> string \<Rightarrow> environment \<Rightarrow> 'db world \<Rightarrow> 'db world" where
  "start q fs dirname env w =
     (case initializeDatabase q fs dirname w of
        (Inr u, w1) \<Rightarrow>
          (case listen_error env of
             None \<Rightarrow>
               console_log
                 [Text (''Environment: '' @ (case NODE_ENV env of None \<Rightarrow> ''undefined'' | Some v \<Rightarrow> v))]
                 (console_log [Text (''Server running on port '' @ port_text env)]
                    (w1\<lparr>listening := True\<rparr>))
           | Some e \<Rightarrow>
               (console_error [Text ''Failed to start server:'', ErrObj e] w1)\<lparr>exit_code := Some 1\<rparr>)
      | (Inl e, w1) \<Rightarrow>
          (console_error [Text ''Failed to start server:'', ErrObj e] w1)\<lparr>exit_code := Some 1\<rparr>)"

section \<open>A reference model of the \<^verbatim>\<open>users\<close> table\<close>

text \<open>
  What the five statements of the handlers mean on a table with a serial primary key
  \<^verbatim>\<open>id\<close>, the text columns \<^verbatim>\<open>name\<close> and \<^verbatim>\<open>email\<close> (unique) and the column
  \<^verbatim>\<open>created_at\<close>, as \<^verbatim>\<open>schema.sql\<close> creates it
  (\<^verbatim>\<open>docs/19-backend-deployment.md\<close>). The table keeps its rows in insertion order.
  The column \<^verbatim>\<open>id\<close> is a 32-bit integer (\<^verbatim>\<open>SERIAL\<close>): a bound id outside
  \<open>-2147483648 .. 2147483647\<close> is rejected by the database, and so is an insertion once
  the sequence has left that range. The columns \<^verbatim>\<open>name\<close> and \<^verbatim>\<open>email\<close> hold
  text: a bound text that contains the zero character is rejected by the database. How
  the driver writes a bound value that is not a string as text is left open (the
  parameter \<open>conv\<close>). A length limit of the text columns is not part of the model, and
  the messages of the errors are abridged.

  The state behind the pool also tells whether the server can be reached (\<open>online\<close>)
  and whether the pool holds an open client (\<open>connected\<close>). A server that is not
  \<open>online\<close> rejects every statement, and no client is opened. Otherwise the pool opens
  a client for the statement when it holds none, which is the \<open>Connect\<close> event, and
  keeps it.
\<close>

record user =
  user_id :: int
  user_name :: string
  user_email :: string
  user_created_at :: string

record users_db =
  users :: "user list"
  next_id :: int
  online :: bool
  connected :: bool
  db_now :: string

definition pg_text :: "(jsval \<Rightarrow> string) \<Rightarrow> jsval \<Rightarrow> string" where
  "pg_text conv v = (case v of JStr s \<Rightarrow> s | _ \<Rightarrow> conv v)"

definition text_ok :: "string \<Rightarrow> bool" where
  "text_ok s = (CHR 0x00 \<notin> set s)"

definition in_int4 :: "int \<Rightarrow> bool" where
  "in_int4 k = (- 2147483648 \<le> k \<and> k \<le> 2147483647)"

text \<open>A bound value read as a value of the column \<^verbatim>\<open>id\<close>.\<close>

definition id_param :: "jsval \<Rightarrow> js_error + int" where
  "id_param v =
     (case v of
        JNum (Fin x) \<Rightarrow>
          if of_int \<lfloor>x\<rfloor> \<noteq> x then Inl (Error ''invalid input syntax for type integer'')
          else if in_int4 \<lfloor>x\<rfloor> then Inr \<lfloor>x\<rfloor>
          else Inl (Error ''value out of range for type integer'')
      | _ \<Rightarrow> Inl (Error ''invalid input syntax for type integer''))"

definition json_id :: "user \<Rightarrow> string \<times> jsval" where
  "json_id u = (''id'', JNum (Fin (of_int (user_id u))))"

text \<open>The columns \<^verbatim>\<open>id, name, email\<close>; all columns (\<^verbatim>\<open>RETURNING *\<close>).\<close>

definition row_json :: "user \<Rightarrow> jsval" where
  "row_json u = JObj [json_id u, (''name'', JStr (user_name u)), (''email'', JStr (user_email u))]"

definition row_all :: "user \<Rightarrow> jsval" where
  "row_all u =
     JObj [json_id u, (''name'', JStr (user_name u)), (''email'', JStr (user_email u)),
           (''created_at'', JStr (user_created_at u))]"

definition with_id :: "int \<Rightarrow> user list \<Rightarrow> user list" where
  "with_id k us = filter (\<lambda>u. user_id u = k) us"

text \<open>One statement on the table, the server being reached.\<close>

definition users_statement ::
  "(jsval \<Rightarrow> string) \<Rightarrow> string \<Rightarrow> jsval list \<Rightarrow> users_db \<Rightarrow> (js_error + jsval list) \<times> users_db" where
  "users_statement conv sql vals d =
     (if sql = ''SELECT id, name, email FROM users ORDER BY id'' then
        (Inr (map row_json (sort_key user_id (users d))), d)
      else if sql = ''INSERT INTO users (name, email) VALUES ($1, $2) RETURNING *'' then
        (case vals of
           [n, e] \<Rightarrow>
             if \<not> text_ok (pg_text conv n) \<or> \<not> text_ok (pg_text conv e)
             then (Inl (Error ''invalid byte sequence for encoding UTF8: 0x00''), d)
             else if \<not> in_int4 (next_id d)
             then (Inl (Error ''nextval: reached maximum value of sequence''), d)
             else if pg_text conv e \<in> set (map user_email (users d))
             then (Inl (Error ''duplicate key value violates unique constraint''),
                   d\<lparr>next_id := next_id d + 1\<rparr>)
             else
               let u = \<lparr>user_id = next_id d, user_name = pg_text conv n,
                        user_email = pg_text conv e, user_created_at = db_now d\<rparr>
               in (Inr [row_all u], d\<lparr>users := users d @ [u], next_id := next_id d + 1\<rparr>)
         | _ \<Rightarrow> (Inl (Error ''wrong number of parameters''), d))
      else if sql = ''SELECT id, name, email FROM users WHERE id = $1'' then
        (case vals of
           [i] \<Rightarrow>
             (case id_param i of
                Inl err \<Rightarrow> (Inl err, d)
              | Inr k \<Rightarrow> (Inr (map row_json (with_id k (users d))), d))
         | _ \<Rightarrow> (Inl (Error ''wrong number of parameters''), d))
      else if sql = ''UPDATE users SET name = $1, email = $2 WHERE id = $3 RETURNING id, name, email'' then
        (case vals of
           [n, e, i] \<Rightarrow>
             if \<not> text_ok (pg_text conv n) \<or> \<not> text_ok (pg_text conv e)
             then (Inl (Error ''invalid byte sequence for encoding UTF8: 0x00''), d)
             else
             (case id_param i of
                Inl err \<Rightarrow> (Inl err, d)
              | Inr k \<Rightarrow>
                  if with_id k (users d) \<noteq> []
                     \<and> pg_text conv e \<in> set (map user_email (filter (\<lambda>u. user_id u \<noteq> k) (users d)))
                  then (Inl (Error ''duplicate key value violates unique constraint''), d)
                  else
                    let us = map (\<lambda>u. if user_id u = k
                                       then u\<lparr>user_name := pg_text conv n, user_email := pg_text conv e\<rparr>
                                       else u) (users d)
                    in (Inr (map row_json (with_id k us)), d\<lparr>users := us\<rparr>))
         | _ \<Rightarrow> (Inl (Error ''wrong number of parameters''), d))
      else if sql = ''DELETE FROM users WHERE id = $1 RETURNING id'' then
        (case vals of
           [i] \<Rightarrow>
             (case id_param i of
                Inl err \<Rightarrow> (Inl err, d)
              | Inr k \<Rightarrow>
                  (Inr (map (\<lambda>u. JObj [json_id u]) (with_id k (users d))),
                   d\<lparr>users := filter (\<lambda>u. user_id u \<noteq> k) (users d)\<rparr>))
         | _ \<Rightarrow> (Inl (Error ''wrong number of parameters''), d))
      else (Inl (Error ''statement outside the reference model''), d))"

text \<open>The driver of the reference model: the pool in front of the table.\<close>

definition users_table :: "(jsval \<Rightarrow> string) \<Rightarrow> users_db driver" where
  "users_table conv sql vals d =
     (if \<not> online d then (Inl (Error ''connection refused''), d, [])
      else
        case users_statement conv sql vals d of
          (r, d') \<Rightarrow> (r, d'\<lparr>connected := True\<rparr>, if connected d then [] else [Connect]))"

text \<open>The invariant of the table: the primary key is unique, and every stored id was
  drawn from the sequence and lies in the range of the column.\<close>

definition table_ok :: "users_db \<Rightarrow> bool" where
  "table_ok d =
     (distinct (map user_id (users d))
      \<and> list_all (\<lambda>u. user_id u < next_id d \<and> in_int4 (user_id u)) (users d))"

section \<open>Sample inputs\<close>

text \<open>Concrete requests, stores and drivers at which the theorems below are
  instantiated. The sample store holds two rows, and its pool has not opened a client
  yet.\<close>

definition sample_conv :: "jsval \<Rightarrow> string" where
  "sample_conv v = ''?''"

definition sample_db :: users_db where
  "sample_db =
     \<lparr>users =
        [\<lparr>user_id = 2, user_name = ''Bob'', user_email = ''bob@example.com'',
          user_created_at = ''2025-01-02T00:00:00.000Z''\<rparr>,
         \<lparr>user_id = 1, user_name = ''Alice'', user_email = ''alice@example.com'',
          user_created_at = ''2025-01-01T00:00:00.000Z''\<rparr>],
      next_id = 3, online = True, connected = False, db_now = ''2025-01-03T00:00:00.000Z''\<rparr>"

definition fresh_world :: "'db \<Rightarrow> 'db world" where
  "fresh_world d =
     \<lparr>database = d, issued = [], console = [], clock = ''2025-01-03T00:00:00.000Z'',
      totalCount = 0, idleCount = 0, waitingCount = 0, listening = False, exit_code = None\<rparr>"

text \<open>\<^verbatim>\<open>PUT /api/users/abc {"name":"Bob"}\<close>: neither an integer id nor an email.\<close>

definition req_invalid :: request where
  "req_invalid = \<lparr>params_id = ustr ''abc'', body_name = JStr ''Bob'', body_email = JUndefined\<rparr>"

text \<open>A body whose name tries to close the statement.\<close>

definition req_inject :: request where
  "req_inject =
     \<lparr>params_id = ustr ''1'', body_name = JStr ''x); DROP TABLE users; --'',
      body_email = JStr ''mallory@example.com''\<rparr>"

text \<open>A request for an id that is not stored, with a valid body.\<close>

definition req_carol :: request where
  "req_carol =
     \<lparr>params_id = ustr ''7'', body_name = JStr ''Carol'', body_email = JStr ''carol@example.com''\<rparr>"

text \<open>\<^verbatim>\<open>GET /api/users/0x10\<close>: a hexadecimal id.\<close>

definition req_hex :: request where
  "req_hex = \<lparr>params_id = ustr ''0x10'', body_name = JUndefined, body_email = JUndefined\<rparr>"

text \<open>Requests for the ids 3 and 2.\<close>

definition req_three :: request where
  "req_three = \<lparr>params_id = ustr ''3'', body_name = JUndefined, body_email = JUndefined\<rparr>"

definition req_two :: request where
  "req_two = \<lparr>params_id = ustr ''2'', body_name = JUndefined, body_email = JUndefined\<rparr>"

text \<open>\<^verbatim>\<open>GET /api/users/2147483648\<close>: an integer id one above the range of the
  column. A body whose email is the email of a stored row.\<close>

definition req_big :: request where
  "req_big =
     \<lparr>params_id = ustr ''2147483648'', body_name = JStr ''Dave'',
      body_email = JStr ''dave@example.com''\<rparr>"

definition req_dup :: request where
  "req_dup =
     \<lparr>params_id = ustr ''1'', body_name = JStr ''Robert'', body_email = JStr ''bob@example.com''\<rparr>"

text \<open>The same store with the database down; a driver that accepts every statement; a
  driver that accepts every statement and opens a client for it; a source tree with a
  schema and a migrations directory; an environment.\<close>

definition offline_db :: users_db where
  "offline_db = sample_db\<lparr>online := False\<rparr>"

definition accepting :: "'db driver" where
  "accepting sql vals d = (Inr [], d, [])"

definition connecting :: "'db driver" where
  "connecting sql vals d = (Inr [], d, [Connect])"

definition sample_fs :: filesystem where
  "sample_fs =
     \<lparr>dirs = [''/app/src/../migrations'' \<mapsto>
                [''002_add_index.sql'', ''README.md'', ''001_add_users_table.sql'']],
      files =
        [''/app/src/schema.sql'' \<mapsto> ''CREATE TABLE IF NOT EXISTS users (id SERIAL PRIMARY KEY)'',
         ''/app/src/../migrations/001_add_users_table.sql'' \<mapsto>
           ''ALTER TABLE users ADD COLUMN IF NOT EXISTS phone VARCHAR(20)'',
         ''/app/src/../migrations/002_add_index.sql'' \<mapsto>
           ''CREATE INDEX IF NOT EXISTS idx_users_phone ON users(phone)'',
         ''/app/src/../migrations/README.md'' \<mapsto> ''notes'']\<rparr>"

definition sample_env :: environment where
  "sample_env = \<lparr>PORT = None, NODE_ENV = Some ''production'', listen_error = None\<rparr>"

section \<open>Reading the console\<close>

text \<open>A console entry mentions a text (the path of an endpoint, say) when the text
  occurs in one of its text arguments, in the message of an error it prints, or in a
  string field of the JSON object it prints.\<close>

fun occurs_in :: "string \<Rightarrow> string \<Rightarrow> bool" where
  "occurs_in s [] = (s = [])"
| "occurs_in s (c # t) = (take (length s) (c # t) = s \<or> occurs_in s t)"

fun arg_mentions :: "string \<Rightarrow> console_arg \<Rightarrow> bool" where
  "arg_mentions s (Text t) = occurs_in s t"
| "arg_mentions s (ErrObj e) = occurs_in s (message e)"
| "arg_mentions s (Json v) =
     (case v of
        JObj kvs \<Rightarrow> list_ex (\<lambda>kv. case snd kv of JStr t \<Rightarrow> occurs_in s t | _ \<Rightarrow> False) kvs
      | _ \<Rightarrow> False)"

fun entry_mentions :: "string \<Rightarrow> log_entry \<Rightarrow> bool" where
  "entry_mentions s (ConsoleLog args) = list_ex (arg_mentions s) args"
| "entry_mentions s (ConsoleError args) = list_ex (arg_mentions s) args"

section \<open>Facts about the pool and the handlers\<close>

lemma pool_query_eq [simp]:
  "(pool_query q sql vals w = (r, w')) =
     (r = fst (q sql vals (database w))
      \<and> w' = w\<lparr>database := fst (snd (q sql vals (database w))),
                 issued := issued w @ [(sql, vals)],
                 console := console w @ map pool_listener (snd (snd (q sql vals (database w))))\<rparr>)"
  by (auto simp: pool_query_def split: prod.splits)

lemma fst_pool_query: "fst (pool_query q sql vals w) = fst (q sql vals (database w))"
  by (simp add: pool_query_def split: prod.split)

lemma snd_pool_query:
  "snd (pool_query q sql vals w) =
     w\<lparr>database := fst (snd (q sql vals (database w))),
       issued := issued w @ [(sql, vals)],
       console := console w @ map pool_listener (snd (snd (q sql vals (database w))))\<rparr>"
  by (simp add: pool_query_def split: prod.split)

lemma issued_console_error [simp]: "issued (console_error a w) = issued w"
  by (simp add: console_error_def)

lemma issued_logger_error [simp]: "issued (logger_error m meta w) = issued w"
  by (simp add: logger_error_def console_error_def)

lemma new_issued_self [simp]: "new_issued w w = []"
  by (simp add: new_issued_def)

lemma new_issued_get_api_users:
  "new_issued w (snd (get_api_users q req w)) =
      [(''SELECT id, name, email FROM users ORDER BY id'', [])]"
  by (simp add: get_api_users_def new_issued_def split: prod.split sum.split)

lemma new_issued_post_api_users:
  "new_issued w (snd (post_api_users q req w)) =
     (if truthy (body_name req) \<and> truthy (body_email req)
      then [(''INSERT INTO users (name, email) VALUES ($1, $2) RETURNING *'',
             [body_name req, body_email req])]
      else [])"
  by (simp add: post_api_users_def new_issued_def split: prod.split sum.split)

lemma new_issued_get_api_users_id:
  "new_issued w (snd (get_api_users_id q req w)) =
     (if isInteger (Number (params_id req))
      then [(''SELECT id, name, email FROM users WHERE id = $1'', [JNum (Number (params_id req))])]
      else [])"
  by (simp add: get_api_users_id_def Let_def new_issued_def split: prod.split sum.split)

lemma new_issued_put_api_users_id:
  "new_issued w (snd (put_api_users_id q req w)) =
     (if isInteger (Number (params_id req)) \<and> truthy (body_name req) \<and> truthy (body_email req)
      then [(''UPDATE users SET name = $1, email = $2 WHERE id = $3 RETURNING id, name, email'',
             [body_name req, body_email req, JNum (Number (params_id req))])]
      else [])"
  by (simp add: put_api_users_id_def Let_def new_issued_def split: prod.split sum.split)

lemma new_issued_delete_api_users_id:
  "new_issued w (snd (delete_api_users_id q req w)) =
     (if isInteger (Number (params_id req))
      then [(''DELETE FROM users WHERE id = $1 RETURNING id'', [JNum (Number (params_id req))])]
      else [])"
  by (simp add: delete_api_users_id_def Let_def new_issued_def split: prod.split sum.split)

text \<open>The coercion of the path strings used in the samples.\<close>

lemmas Number_eval = Number_def trim_def StrWhiteSpaceChar_def non_decimal_def all_digits_def
  digit_val_def unsigned_decimal_def is_digit_def signed_integer_def to_double_def
  binary_exponent_def round_half_even_def ustr_def Let_def bitlen_def compute_floorlog

lemma Number_abc: "Number (ustr ''abc'') = NaN"
  by (simp add: Number_eval)

lemma Number_1: "Number (ustr ''1'') = Fin 1"
  by (simp add: Number_eval)

lemma Number_7: "Number (ustr ''7'') = Fin 7"
  by (simp add: Number_eval)

lemma Number_hex: "Number (ustr ''0x10'') = Fin 16"
  by (simp add: Number_eval)

lemma database_fresh_world [simp]: "database (fresh_world d) = d"
  by (simp add: fresh_world_def)

lemma fresh_world_simps [simp]:
  "listening (fresh_world d) = False" "exit_code (fresh_world d) = None"
  "issued (fresh_world d) = []" "console (fresh_world d) = []"
  by (simp_all add: fresh_world_def)

section \<open>Validation comes first\<close>

text \<open>
  Claim C3. A request to GET, PUT or DELETE \<^verbatim>\<open>/api/users/:id\<close> whose id does not coerce
  to an integer, and a POST or PUT whose body lacks a name or an email (the field is
  absent or falsy), is answered with status 400 and the JSON body
  \<^verbatim>\<open>{error: <message>}\<close>. The world the handler returns is the world it was given:
  no statement was submitted to the pool, the stored state is the same, nothing was
  logged. This holds for every driver.
\<close>

theorem validation_fails_fast:
  "(\<not> isInteger (Number (params_id req)) \<longrightarrow>
      get_api_users_id q req w = (Response 400 (Some (JObj [(''error'', JStr ''Invalid user id'')])), w)
    \<and> put_api_users_id q req w = (Response 400 (Some (JObj [(''error'', JStr ''Invalid user id'')])), w)
    \<and> delete_api_users_id q req w = (Response 400 (Some (JObj [(''error'', JStr ''Invalid user id'')])), w))
 \<and> (\<not> truthy (body_name req) \<or> \<not> truthy (body_email req) \<longrightarrow>
      post_api_users q req w = (Response 400 (Some (JObj [(''error'', JStr ''Name and email required'')])), w)
    \<and> (\<exists>msg. put_api_users_id q req w = (Response 400 (Some (JObj [(''error'', JStr msg)])), w)))"
  by (simp add: get_api_users_id_def put_api_users_id_def delete_api_users_id_def
        post_api_users_def json_error_def Let_def)

theorem validation_fails_fast_witness:
  "\<not> isInteger (Number (params_id req_invalid))
 \<and> \<not> truthy (body_email req_invalid)
 \<and> get_api_users_id (users_table sample_conv) req_invalid (fresh_world sample_db) =
     (Response 400 (Some (JObj [(''error'', JStr ''Invalid user id'')])), fresh_world sample_db)
 \<and> put_api_users_id (users_table sample_conv) req_invalid (fresh_world sample_db) =
     (Response 400 (Some (JObj [(''error'', JStr ''Invalid user id'')])), fresh_world sample_db)
 \<and> delete_api_users_id (users_table sample_conv) req_invalid (fresh_world sample_db) =
     (Response 400 (Some (JObj [(''error'', JStr ''Invalid user id'')])), fresh_world sample_db)
 \<and> post_api_users (users_table sample_conv) req_invalid (fresh_world sample_db) =
     (Response 400 (Some (JObj [(''error'', JStr ''Name and email required'')])),
      fresh_world sample_db)"
proof -
  have bad_id: "\<not> isInteger (Number (params_id req_invalid))"
    by (simp add: req_invalid_def Number_abc)
  have no_email: "\<not> truthy (body_email req_invalid)"
    by (simp add: req_invalid_def)
  show ?thesis
    using validation_fails_fast [of req_invalid "users_table sample_conv" "fresh_world sample_db"]
      bad_id no_email
    by simp
qed

section \<open>The SQL text never depends on the request\<close>

lemma same_text_in_two_runs:
  "map fst (new_issued w (snd (handle q r req w))) = []
 \<or> map fst (new_issued w' (snd (handle q' r req' w'))) = []
 \<or> map fst (new_issued w (snd (handle q r req w))) =
    map fst (new_issued w' (snd (handle q' r req' w')))"
  by (cases r)
    (simp_all add: new_issued_get_api_users new_issued_post_api_users
       new_issued_get_api_users_id new_issued_put_api_users_id new_issued_delete_api_users_id
       get_health_def get_api_status_def)

text \<open>
  Claim C6. Whatever the request, the world and the driver, each endpoint submits at
  most one statement to the pool, and the text of that statement is a literal of the
  source, the same for every request: the probes submit none; the list endpoint always
  submits its SELECT; the four others submit their statement exactly when validation
  passes. The values of the request appear only in the array of bound values, never in
  the text. Hence two runs of one endpoint, on any two requests, worlds and drivers, that
  both submit a statement submit the same text.
\<close>

theorem sql_text_is_constant:
  "new_issued w (snd (handle q Health req w)) = []
 \<and> new_issued w (snd (handle q Status req w)) = []
 \<and> new_issued w (snd (handle q ListUsers req w)) =
      [(''SELECT id, name, email FROM users ORDER BY id'', [])]
 \<and> new_issued w (snd (handle q CreateUser req w)) =
      (if truthy (body_name req) \<and> truthy (body_email req)
       then [(''INSERT INTO users (name, email) VALUES ($1, $2) RETURNING *'',
              [body_name req, body_email req])]
       else [])
 \<and> new_issued w (snd (handle q GetUser req w)) =
      (if isInteger (Number (params_id req))
       then [(''SELECT id, name, email FROM users WHERE id = $1'',
              [JNum (Number (params_id req))])]
       else [])
 \<and> new_issued w (snd (handle q UpdateUser req w)) =
      (if isInteger (Number (params_id req)) \<and> truthy (body_name req) \<and> truthy (body_email req)
       then [(''UPDATE users SET name = $1, email = $2 WHERE id = $3 RETURNING id, name, email'',
              [body_name req, body_email req, JNum (Number (params_id req))])]
       else [])
 \<and> new_issued w (snd (handle q DeleteUser req w)) =
      (if isInteger (Number (params_id req))
       then [(''DELETE FROM users WHERE id = $1 RETURNING id'', [JNum (Number (params_id req))])]
       else [])
 \<and> (\<forall>r req' w' q'.
      map fst (new_issued w (snd (handle q r req w))) = []
    \<or> map fst (new_issued w' (snd (handle q' r req' w'))) = []
    \<or> map fst (new_issued w (snd (handle q r req w))) =
       map fst (new_issued w' (snd (handle q' r req' w'))))"
proof -
  have each:
      "new_issued w (snd (handle q Health req w)) = []
     \<and> new_issued w (snd (handle q Status req w)) = []
     \<and> new_issued w (snd (handle q ListUsers req w)) =
          [(''SELECT id, name, email FROM users ORDER BY id'', [])]
     \<and> new_issued w (snd (handle q CreateUser req w)) =
          (if truthy (body_name req) \<and> truthy (body_email req)
           then [(''INSERT INTO users (name, email) VALUES ($1, $2) RETURNING *'',
                  [body_name req, body_email req])]
           else [])
     \<and> new_issued w (snd (handle q GetUser req w)) =
          (if isInteger (Number (params_id req))
           then [(''SELECT id, name, email FROM users WHERE id = $1'',
                  [JNum (Number (params_id req))])]
           else [])
     \<and> new_issued w (snd (handle q UpdateUser req w)) =
          (if isInteger (Number (params_id req)) \<and> truthy (body_name req) \<and> truthy (body_email req)
           then [(''UPDATE users SET name = $1, email = $2 WHERE id = $3 RETURNING id, name, email'',
                  [body_name req, body_email req, JNum (Number (params_id req))])]
           else [])
     \<and> new_issued w (snd (handle q DeleteUser req w)) =
          (if isInteger (Number (params_id req))
           then [(''DELETE FROM users WHERE id = $1 RETURNING id'', [JNum (Number (params_id req))])]
           else [])"
    by (simp add: new_issued_get_api_users new_issued_post_api_users new_issued_get_api_users_id
          new_issued_put_api_users_id new_issued_delete_api_users_id get_health_def
          get_api_status_def)
  have two:
    "\<forall>r req' w' q'.
       map fst (new_issued w (snd (handle q r req w))) = []
     \<or> map fst (new_issued w' (snd (handle q' r req' w'))) = []
     \<or> map fst (new_issued w (snd (handle q r req w))) =
        map fst (new_issued w' (snd (handle q' r req' w')))"
    by (intro allI) (rule same_text_in_two_runs)
  show ?thesis
    using each two by blast
qed

theorem sql_text_is_constant_witness:
  "new_issued (fresh_world sample_db)
     (snd (handle (users_table sample_conv) CreateUser req_inject (fresh_world sample_db))) =
     [(''INSERT INTO users (name, email) VALUES ($1, $2) RETURNING *'',
       [JStr ''x); DROP TABLE users; --'', JStr ''mallory@example.com''])]
 \<and> new_issued (fresh_world sample_db)
     (snd (handle (users_table sample_conv) UpdateUser req_inject (fresh_world sample_db))) =
     [(''UPDATE users SET name = $1, email = $2 WHERE id = $3 RETURNING id, name, email'',
       [JStr ''x); DROP TABLE users; --'', JStr ''mallory@example.com'', JNum (Fin 1)])]"
proof -
  note at_sample =
    sql_text_is_constant [of "fresh_world sample_db" "users_table sample_conv" req_inject]
  note create = at_sample [THEN conjunct2, THEN conjunct2, THEN conjunct2, THEN conjunct1]
  note update = at_sample [THEN conjunct2, THEN conjunct2, THEN conjunct2, THEN conjunct2,
      THEN conjunct2, THEN conjunct1]
  show ?thesis
    using create update by (simp add: req_inject_def Number_1)
qed

section \<open>What each handler answers\<close>

lemma fst_get_api_users:
  "fst (get_api_users q req w) =
     (case fst (q ''SELECT id, name, email FROM users ORDER BY id'' [] (database w)) of
        Inr rows \<Rightarrow> Response 200 (Some (JArr rows))
      | Inl e \<Rightarrow> json_error 500 ''Internal server error'')"
  by (simp add: get_api_users_def split: prod.split sum.split)

lemma fst_post_api_users:
  "fst (post_api_users q req w) =
     (if \<not> truthy (body_name req) \<or> \<not> truthy (body_email req)
      then json_error 400 ''Name and email required''
      else
        case fst (q ''INSERT INTO users (name, email) VALUES ($1, $2) RETURNING *''
                    [body_name req, body_email req] (database w)) of
          Inr rows \<Rightarrow> Response 201 (Some (rows0 rows))
        | Inl e \<Rightarrow> json_error 500 ''Internal server error'')"
  by (simp add: post_api_users_def split: prod.split sum.split)

lemma fst_get_api_users_id:
  "fst (get_api_users_id q req w) =
     (if \<not> isInteger (Number (params_id req)) then json_error 400 ''Invalid user id''
      else
        case fst (q ''SELECT id, name, email FROM users WHERE id = $1''
                    [JNum (Number (params_id req))] (database w)) of
          Inr rows \<Rightarrow>
            if rows = [] then json_error 404 ''User not found''
            else Response 200 (Some (rows0 rows))
        | Inl e \<Rightarrow> json_error 500 ''Internal server error'')"
  by (simp add: get_api_users_id_def Let_def split: prod.split sum.split)

lemma fst_put_api_users_id:
  "fst (put_api_users_id q req w) =
     (if \<not> isInteger (Number (params_id req)) then json_error 400 ''Invalid user id''
      else if \<not> truthy (body_name req) \<or> \<not> truthy (body_email req)
      then json_error 400 ''Name and email required''
      else
        case fst (q ''UPDATE users SET name = $1, email = $2 WHERE id = $3 RETURNING id, name, email''
                    [body_name req, body_email req, JNum (Number (params_id req))] (database w)) of
          Inr rows \<Rightarrow>
            if rows = [] then json_error 404 ''User not found''
            else Response 200 (Some (rows0 rows))
        | Inl e \<Rightarrow> json_error 500 ''Internal server error'')"
  by (simp add: put_api_users_id_def Let_def split: prod.split sum.split)

lemma fst_delete_api_users_id:
  "fst (delete_api_users_id q req w) =
     (if \<not> isInteger (Number (params_id req)) then json_error 400 ''Invalid user id''
      else
        case fst (q ''DELETE FROM users WHERE id = $1 RETURNING id''
                    [JNum (Number (params_id req))] (database w)) of
          Inr rows \<Rightarrow>
            if rows = [] then json_error 404 ''User not found''
            else Response 204 None
        | Inl e \<Rightarrow> json_error 500 ''Internal server error'')"
  by (simp add: delete_api_users_id_def Let_def split: prod.split sum.split)

lemmas fst_handlers = fst_get_api_users fst_post_api_users fst_get_api_users_id
  fst_put_api_users_id fst_delete_api_users_id

section \<open>The reference table\<close>

text \<open>What the reference table answers to each statement, the rows a statement finds,
  and the invariant.\<close>

lemma id_param_of_int [simp]:
  "id_param (JNum (Fin (of_int k))) =
     (if in_int4 k then Inr k else Inl (Error ''value out of range for type integer''))"
  by (simp add: id_param_def)

lemma users_table_offline:
  "\<not> online d \<Longrightarrow> users_table conv sql vals d = (Inl (Error ''connection refused''), d, [])"
  by (simp add: users_table_def)

lemma users_table_online:
  "online d \<Longrightarrow>
   users_table conv sql vals d =
     (fst (users_statement conv sql vals d),
      (snd (users_statement conv sql vals d))\<lparr>connected := True\<rparr>,
      if connected d then [] else [Connect])"
  by (simp add: users_table_def split: prod.split)

lemma users_statement_select_all:
  "users_statement conv ''SELECT id, name, email FROM users ORDER BY id'' vals d =
     (Inr (map row_json (sort_key user_id (users d))), d)"
  by (simp add: users_statement_def)

lemma users_statement_insert:
  "users_statement conv ''INSERT INTO users (name, email) VALUES ($1, $2) RETURNING *'' [n, e] d =
     (if \<not> text_ok (pg_text conv n) \<or> \<not> text_ok (pg_text conv e)
      then (Inl (Error ''invalid byte sequence for encoding UTF8: 0x00''), d)
      else if \<not> in_int4 (next_id d)
      then (Inl (Error ''nextval: reached maximum value of sequence''), d)
      else if pg_text conv e \<in> set (map user_email (users d))
      then (Inl (Error ''duplicate key value violates unique constraint''),
            d\<lparr>next_id := next_id d + 1\<rparr>)
      else (Inr [row_all \<lparr>user_id = next_id d, user_name = pg_text conv n,
                          user_email = pg_text conv e, user_created_at = db_now d\<rparr>],
            d\<lparr>users := users d @ [\<lparr>user_id = next_id d, user_name = pg_text conv n,
                                    user_email = pg_text conv e, user_created_at = db_now d\<rparr>],
              next_id := next_id d + 1\<rparr>))"
  by (simp add: users_statement_def Let_def)

lemma users_statement_select_id:
  "users_statement conv ''SELECT id, name, email FROM users WHERE id = $1'' [JNum (Fin (of_int k))] d =
     (if in_int4 k then (Inr (map row_json (with_id k (users d))), d)
      else (Inl (Error ''value out of range for type integer''), d))"
  by (simp add: users_statement_def)

lemma users_statement_delete:
  "users_statement conv ''DELETE FROM users WHERE id = $1 RETURNING id'' [JNum (Fin (of_int k))] d =
     (if in_int4 k
      then (Inr (map (\<lambda>u. JObj [json_id u]) (with_id k (users d))),
            d\<lparr>users := filter (\<lambda>u. user_id u \<noteq> k) (users d)\<rparr>)
      else (Inl (Error ''value out of range for type integer''), d))"
  by (simp add: users_statement_def)

lemma isInteger_of_int [simp]: "isInteger (Fin (of_int k))"
  by simp

lemma with_id_absent: "list_all (\<lambda>u. user_id u < k) us \<Longrightarrow> with_id k us = []"
  by (induction us) (auto simp: with_id_def)

lemma with_id_member:
  "distinct (map user_id us) \<Longrightarrow> u \<in> set us \<Longrightarrow> with_id (user_id u) us = [u]"
proof (induction us)
  case Nil
  then show ?case by simp
next
  case (Cons v vs)
  show ?case
  proof (cases "v = u")
    case True
    from Cons.prems have "\<forall>x \<in> set vs. user_id x \<noteq> user_id u"
      using True by (fastforce simp: image_iff)
    then have "filter (\<lambda>x. user_id x = user_id u) vs = []"
      by (simp add: filter_empty_conv)
    then show ?thesis
      using True by (simp add: with_id_def)
  next
    case False
    with Cons.prems have "u \<in> set vs" and "user_id v \<noteq> user_id u"
      by auto
    with Cons show ?thesis
      by (simp add: with_id_def)
  qed
qed

lemma remove_by_id:
  "distinct (map user_id us) \<Longrightarrow> u \<in> set us \<Longrightarrow>
   filter (\<lambda>v. user_id v \<noteq> user_id u) us = remove1 u us"
proof (induction us)
  case Nil
  then show ?case by simp
next
  case (Cons v vs)
  show ?case
  proof (cases "v = u")
    case True
    from Cons.prems have "\<forall>x \<in> set vs. user_id x \<noteq> user_id u"
      using True by (fastforce simp: image_iff)
    then have "filter (\<lambda>x. user_id x \<noteq> user_id u) vs = vs"
      by (simp add: filter_id_conv)
    then show ?thesis
      using True by simp
  next
    case False
    with Cons.prems have "u \<in> set vs" and "user_id v \<noteq> user_id u"
      by auto
    with Cons show ?thesis
      using False by simp
  qed
qed

lemma user_id_update:
  "user_id \<circ> (\<lambda>u. if user_id u = k then u\<lparr>user_name := a, user_email := b\<rparr> else u) = user_id"
  by (rule ext) simp

lemma table_ok_connected [simp]: "table_ok (d\<lparr>connected := c\<rparr>) = table_ok d"
  by (simp add: table_ok_def)

lemma table_ok_steps:
  assumes "table_ok d"
  shows "table_ok (d\<lparr>next_id := next_id d + 1\<rparr>)"
    and "in_int4 (next_id d) \<Longrightarrow>
         table_ok (d\<lparr>users := users d @ [\<lparr>user_id = next_id d, user_name = a, user_email = b,
                                            user_created_at = c\<rparr>],
                     next_id := next_id d + 1\<rparr>)"
    and "table_ok (d\<lparr>users := map (\<lambda>u. if user_id u = k
                                         then u\<lparr>user_name := a, user_email := b\<rparr> else u)
                                  (users d)\<rparr>)"
    and "table_ok (d\<lparr>users := filter P (users d)\<rparr>)"
proof -
  from assms have ids: "distinct (map user_id (users d))"
    and below: "\<forall>u \<in> set (users d). user_id u < next_id d"
    and range: "\<forall>u \<in> set (users d). in_int4 (user_id u)"
    by (simp_all add: table_ok_def list_all_iff)
  show "table_ok (d\<lparr>next_id := next_id d + 1\<rparr>)"
    using ids below range by (auto simp: table_ok_def list_all_iff)
  show "table_ok (d\<lparr>users := users d @ [\<lparr>user_id = next_id d, user_name = a, user_email = b,
                                            user_created_at = c\<rparr>],
                     next_id := next_id d + 1\<rparr>)"
    if "in_int4 (next_id d)"
    using ids below range that by (auto simp: table_ok_def list_all_iff)
  show "table_ok (d\<lparr>users := map (\<lambda>u. if user_id u = k
                                         then u\<lparr>user_name := a, user_email := b\<rparr> else u)
                                  (users d)\<rparr>)"
    using ids below range by (auto simp: table_ok_def list_all_iff user_id_update)
  show "table_ok (d\<lparr>users := filter P (users d)\<rparr>)"
    using ids below range by (auto simp: table_ok_def list_all_iff distinct_map_filter)
qed

lemma table_ok_statement: "table_ok d \<Longrightarrow> table_ok (snd (users_statement conv sql vals d))"
  by (simp add: users_statement_def Let_def table_ok_steps split: list.split sum.split)

lemma table_ok_preserved: "table_ok d \<Longrightarrow> table_ok (fst (snd (users_table conv sql vals d)))"
  by (cases "online d") (simp_all add: users_table_offline users_table_online table_ok_statement)

lemma with_id_empty: "with_id k us = [] \<longleftrightarrow> (\<forall>u \<in> set us. user_id u \<noteq> k)"
  by (auto simp: with_id_def filter_empty_conv)

lemma with_id_update:
  "with_id k (map (\<lambda>u. if user_id u = k then u\<lparr>user_name := a, user_email := b\<rparr> else u) us) = []
   \<longleftrightarrow> with_id k us = []"
  by (induction us) (simp_all add: with_id_def)

lemma users_statement_update:
  "users_statement conv
     ''UPDATE users SET name = $1, email = $2 WHERE id = $3 RETURNING id, name, email''
     [n, e, JNum (Fin (of_int k))] d =
     (if \<not> text_ok (pg_text conv n) \<or> \<not> text_ok (pg_text conv e)
      then (Inl (Error ''invalid byte sequence for encoding UTF8: 0x00''), d)
      else if \<not> in_int4 k then (Inl (Error ''value out of range for type integer''), d)
      else if with_id k (users d) \<noteq> []
         \<and> pg_text conv e \<in> set (map user_email (filter (\<lambda>u. user_id u \<noteq> k) (users d)))
      then (Inl (Error ''duplicate key value violates unique constraint''), d)
      else
        (Inr (map row_json (with_id k
                (map (\<lambda>u. if user_id u = k
                           then u\<lparr>user_name := pg_text conv n, user_email := pg_text conv e\<rparr>
                           else u) (users d)))),
         d\<lparr>users := map (\<lambda>u. if user_id u = k
                               then u\<lparr>user_name := pg_text conv n, user_email := pg_text conv e\<rparr>
                               else u) (users d)\<rparr>))"
  by (simp add: users_statement_def Let_def)

text \<open>With the server reached and the id in the range of the column, a statement by id
  finds no row exactly when no stored row has the id; an integer id outside the range
  is rejected.\<close>

lemma no_row_in_table:
  assumes "online d" and "in_int4 k"
  shows "fst (users_table conv ''SELECT id, name, email FROM users WHERE id = $1''
                [JNum (Fin (of_int k))] d) = Inr []
           \<longleftrightarrow> (\<forall>u \<in> set (users d). user_id u \<noteq> k)"
    and "text_ok (pg_text conv n) \<Longrightarrow> text_ok (pg_text conv e) \<Longrightarrow>
         fst (users_table conv
                ''UPDATE users SET name = $1, email = $2 WHERE id = $3 RETURNING id, name, email''
                [n, e, JNum (Fin (of_int k))] d) = Inr []
           \<longleftrightarrow> (\<forall>u \<in> set (users d). user_id u \<noteq> k)"
    and "fst (users_table conv ''DELETE FROM users WHERE id = $1 RETURNING id''
                [JNum (Fin (of_int k))] d) = Inr []
           \<longleftrightarrow> (\<forall>u \<in> set (users d). user_id u \<noteq> k)"
proof -
  have "fst (users_table conv ''SELECT id, name, email FROM users WHERE id = $1''
                [JNum (Fin (of_int k))] d) = Inr [] \<longleftrightarrow> with_id k (users d) = []"
    using assms by (simp add: users_table_online users_statement_select_id)
  then show "fst (users_table conv ''SELECT id, name, email FROM users WHERE id = $1''
                [JNum (Fin (of_int k))] d) = Inr []
           \<longleftrightarrow> (\<forall>u \<in> set (users d). user_id u \<noteq> k)"
    by (simp add: with_id_empty)
  have "fst (users_table conv
                ''UPDATE users SET name = $1, email = $2 WHERE id = $3 RETURNING id, name, email''
                [n, e, JNum (Fin (of_int k))] d) = Inr [] \<longleftrightarrow> with_id k (users d) = []"
    if "text_ok (pg_text conv n)" and "text_ok (pg_text conv e)"
    using assms that by (simp add: users_table_online users_statement_update with_id_update)
  then show "fst (users_table conv
                ''UPDATE users SET name = $1, email = $2 WHERE id = $3 RETURNING id, name, email''
                [n, e, JNum (Fin (of_int k))] d) = Inr []
           \<longleftrightarrow> (\<forall>u \<in> set (users d). user_id u \<noteq> k)"
    if "text_ok (pg_text conv n)" and "text_ok (pg_text conv e)"
    using that by (simp add: with_id_empty)
  have "fst (users_table conv ''DELETE FROM users WHERE id = $1 RETURNING id''
                [JNum (Fin (of_int k))] d) = Inr [] \<longleftrightarrow> with_id k (users d) = []"
    using assms by (simp add: users_table_online users_statement_delete)
  then show "fst (users_table conv ''DELETE FROM users WHERE id = $1 RETURNING id''
                [JNum (Fin (of_int k))] d) = Inr []
           \<longleftrightarrow> (\<forall>u \<in> set (users d). user_id u \<noteq> k)"
    by (simp add: with_id_empty)
qed

lemma out_of_range_in_table:
  assumes "online d" and "\<not> in_int4 k"
  shows "fst (users_table conv ''SELECT id, name, email FROM users WHERE id = $1''
                [JNum (Fin (of_int k))] d) = Inl (Error ''value out of range for type integer'')"
    and "\<exists>err. fst (users_table conv
                ''UPDATE users SET name = $1, email = $2 WHERE id = $3 RETURNING id, name, email''
                [n, e, JNum (Fin (of_int k))] d) = Inl err"
    and "fst (users_table conv ''DELETE FROM users WHERE id = $1 RETURNING id''
                [JNum (Fin (of_int k))] d) = Inl (Error ''value out of range for type integer'')"
  using assms
  by (simp_all add: users_table_online users_statement_select_id users_statement_update
        users_statement_delete)

text \<open>Every handler keeps the invariant of the table.\<close>

lemma database_after_handler:
  "database (snd (get_health req w)) = database w"
  "database (snd (get_api_status req w)) = database w"
  "database (snd (get_api_users q req w)) =
     fst (snd (q ''SELECT id, name, email FROM users ORDER BY id'' [] (database w)))"
  "database (snd (post_api_users q req w)) =
     (if truthy (body_name req) \<and> truthy (body_email req)
      then fst (snd (q ''INSERT INTO users (name, email) VALUES ($1, $2) RETURNING *''
                       [body_name req, body_email req] (database w)))
      else database w)"
  "database (snd (get_api_users_id q req w)) =
     (if isInteger (Number (params_id req))
      then fst (snd (q ''SELECT id, name, email FROM users WHERE id = $1''
                       [JNum (Number (params_id req))] (database w)))
      else database w)"
  "database (snd (put_api_users_id q req w)) =
     (if isInteger (Number (params_id req)) \<and> truthy (body_name req) \<and> truthy (body_email req)
      then fst (snd (q ''UPDATE users SET name = $1, email = $2 WHERE id = $3 RETURNING id, name, email''
                       [body_name req, body_email req, JNum (Number (params_id req))] (database w)))
      else database w)"
  "database (snd (delete_api_users_id q req w)) =
     (if isInteger (Number (params_id req))
      then fst (snd (q ''DELETE FROM users WHERE id = $1 RETURNING id''
                       [JNum (Number (params_id req))] (database w)))
      else database w)"
  by (simp_all add: get_health_def get_api_status_def get_api_users_def post_api_users_def
        get_api_users_id_def put_api_users_id_def delete_api_users_id_def Let_def
        logger_error_def console_error_def
      split: prod.split sum.split)

lemma handle_preserves_table_ok:
  "table_ok (database w) \<Longrightarrow> table_ok (database (snd (handle (users_table conv) r req w)))"
  by (cases r) (simp_all add: database_after_handler table_ok_preserved)

section \<open>No matching row: 404\<close>

lemma Number_big: "Number (ustr ''2147483648'') = Fin 2147483648"
  by (simp add: Number_eval)

text \<open>
  Claim C2, as the code has it. Let the database be reached, let the path id coerce to
  the integer \<open>k\<close>, and let no stored row have the id \<open>k\<close>. If \<open>k\<close> lies in the range
  of the column \<^verbatim>\<open>id\<close>, then GET \<^verbatim>\<open>/api/users/:id\<close>, PUT \<^verbatim>\<open>/api/users/:id\<close>
  (with a name and an email supplied, each written as a text the database accepts) and
  DELETE \<^verbatim>\<open>/api/users/:id\<close> each answer 404 \<^verbatim>\<open>{error: 'User not found'}\<close>. If \<open>k\<close>
  lies outside that range, the database rejects the bound value and each of the three
  answers 500.
\<close>

theorem absent_id_gets_404:
  assumes up: "online (database w)"
    and id: "Number (params_id req) = Fin (of_int k)"
    and absent: "\<forall>u \<in> set (users (database w)). user_id u \<noteq> k"
  shows
  "(in_int4 k \<longrightarrow>
      fst (get_api_users_id (users_table conv) req w) =
        Response 404 (Some (JObj [(''error'', JStr ''User not found'')]))
    \<and> (truthy (body_name req) \<and> truthy (body_email req)
        \<and> text_ok (pg_text conv (body_name req)) \<and> text_ok (pg_text conv (body_email req)) \<longrightarrow>
         fst (put_api_users_id (users_table conv) req w) =
           Response 404 (Some (JObj [(''error'', JStr ''User not found'')])))
    \<and> fst (delete_api_users_id (users_table conv) req w) =
        Response 404 (Some (JObj [(''error'', JStr ''User not found'')])))
 \<and> (\<not> in_int4 k \<longrightarrow>
      fst (get_api_users_id (users_table conv) req w) =
        Response 500 (Some (JObj [(''error'', JStr ''Internal server error'')]))
    \<and> (truthy (body_name req) \<and> truthy (body_email req) \<longrightarrow>
         fst (put_api_users_id (users_table conv) req w) =
           Response 500 (Some (JObj [(''error'', JStr ''Internal server error'')])))
    \<and> fst (delete_api_users_id (users_table conv) req w) =
        Response 500 (Some (JObj [(''error'', JStr ''Internal server error'')])))"
proof -
  from absent have none: "with_id k (users (database w)) = []"
    by (simp add: with_id_empty)
  have in_range:
    "fst (get_api_users_id (users_table conv) req w) =
       Response 404 (Some (JObj [(''error'', JStr ''User not found'')]))
     \<and> (truthy (body_name req) \<and> truthy (body_email req)
         \<and> text_ok (pg_text conv (body_name req)) \<and> text_ok (pg_text conv (body_email req)) \<longrightarrow>
          fst (put_api_users_id (users_table conv) req w) =
            Response 404 (Some (JObj [(''error'', JStr ''User not found'')])))
     \<and> fst (delete_api_users_id (users_table conv) req w) =
         Response 404 (Some (JObj [(''error'', JStr ''User not found'')]))"
    if "in_int4 k"
    using that up none
    by (simp add: fst_handlers id users_table_online users_statement_select_id
          users_statement_update users_statement_delete with_id_update json_error_def)
  have outside:
    "fst (get_api_users_id (users_table conv) req w) =
       Response 500 (Some (JObj [(''error'', JStr ''Internal server error'')]))
     \<and> (truthy (body_name req) \<and> truthy (body_email req) \<longrightarrow>
          fst (put_api_users_id (users_table conv) req w) =
            Response 500 (Some (JObj [(''error'', JStr ''Internal server error'')])))
     \<and> fst (delete_api_users_id (users_table conv) req w) =
         Response 500 (Some (JObj [(''error'', JStr ''Internal server error'')]))"
    if "\<not> in_int4 k"
    using that up
    by (simp add: fst_handlers id users_table_online users_statement_select_id
          users_statement_update users_statement_delete json_error_def)
  show ?thesis
    using in_range outside by blast
qed

theorem absent_id_gets_404_witness:
  "online (database (fresh_world sample_db))
 \<and> Number (params_id req_carol) = Fin (of_int 7)
 \<and> with_id 7 (users (database (fresh_world sample_db))) = []
 \<and> in_int4 7
 \<and> fst (get_api_users_id (users_table sample_conv) req_carol (fresh_world sample_db)) =
     Response 404 (Some (JObj [(''error'', JStr ''User not found'')]))
 \<and> fst (put_api_users_id (users_table sample_conv) req_carol (fresh_world sample_db)) =
     Response 404 (Some (JObj [(''error'', JStr ''User not found'')]))
 \<and> fst (delete_api_users_id (users_table sample_conv) req_carol (fresh_world sample_db)) =
     Response 404 (Some (JObj [(''error'', JStr ''User not found'')]))"
proof -
  have up: "online (database (fresh_world sample_db))"
    by (simp add: sample_db_def)
  have id: "Number (params_id req_carol) = Fin (of_int 7)"
    by (simp add: req_carol_def Number_7)
  have absent: "\<forall>u \<in> set (users (database (fresh_world sample_db))). user_id u \<noteq> 7"
    by (simp add: sample_db_def)
  have none: "with_id 7 (users (database (fresh_world sample_db))) = []"
    by (simp add: sample_db_def with_id_def)
  have range: "in_int4 7"
    by (simp add: in_int4_def)
  have fields: "truthy (body_name req_carol)" "truthy (body_email req_carol)"
    "text_ok (pg_text sample_conv (body_name req_carol))"
    "text_ok (pg_text sample_conv (body_email req_carol))"
    by (simp_all add: req_carol_def pg_text_def text_ok_def)
  show ?thesis
    using absent_id_gets_404 [OF up id absent, of sample_conv] up id none range fields
    by simp
qed

text \<open>
  The claim as stated has every integer id that matches no stored row answered 404.
  \<^verbatim>\<open>GET /api/users/2147483648\<close>: the path coerces to an integer and passes the
  validation, the database is reached, no stored row has the id 2147483648, and the
  answer is 500, as it is for PUT and DELETE: the database rejects a bound value that
  is outside the range of the column.
\<close>

theorem out_of_range_id_gets_500:
  "isInteger (Number (params_id req_big))
 \<and> online (database (fresh_world sample_db))
 \<and> with_id 2147483648 (users (database (fresh_world sample_db))) = []
 \<and> truthy (body_name req_big) \<and> truthy (body_email req_big)
 \<and> fst (get_api_users_id (users_table sample_conv) req_big (fresh_world sample_db)) =
     Response 500 (Some (JObj [(''error'', JStr ''Internal server error'')]))
 \<and> fst (put_api_users_id (users_table sample_conv) req_big (fresh_world sample_db)) =
     Response 500 (Some (JObj [(''error'', JStr ''Internal server error'')]))
 \<and> fst (delete_api_users_id (users_table sample_conv) req_big (fresh_world sample_db)) =
     Response 500 (Some (JObj [(''error'', JStr ''Internal server error'')]))"
proof -
  have id: "Number (params_id req_big) = Fin (of_int 2147483648)"
    by (simp add: req_big_def Number_big)
  have outside: "\<not> in_int4 2147483648"
    by (simp add: in_int4_def)
  have up: "online sample_db"
    by (simp add: sample_db_def)
  have none: "with_id 2147483648 (users sample_db) = []"
    by (simp add: sample_db_def with_id_def)
  have fields: "truthy (body_name req_big)" "truthy (body_email req_big)"
    by (simp_all add: req_big_def)
  note rejected =
    out_of_range_in_table(1) [OF up outside, of sample_conv]
    out_of_range_in_table(3) [OF up outside, of sample_conv]
  from out_of_range_in_table(2)
         [OF up outside, of sample_conv "body_name req_big" "body_email req_big"]
  obtain err where update_rejected:
    "fst (users_table sample_conv
            ''UPDATE users SET name = $1, email = $2 WHERE id = $3 RETURNING id, name, email''
            [body_name req_big, body_email req_big, JNum (Fin 2147483648)] sample_db) = Inl err"
    by auto
  show ?thesis
    using up none fields rejected update_rejected
    by (simp add: fst_handlers id json_error_def)
qed

section \<open>Which path strings are accepted as ids\<close>

text \<open>
  Claim C10. GET, PUT and DELETE \<^verbatim>\<open>/api/users/:id\<close> accept a path string exactly when
  its \<^verbatim>\<open>Number()\<close> coercion is an integer: only then is the answer not the 400
  \<^verbatim>\<open>Invalid user id\<close>; the coerced number is the bound value of the one statement
  the handler submits, and the answer is 404 when the database returns no row. Among the
  accepted strings are \<^verbatim>\<open>"-5"\<close>, \<^verbatim>\<open>"0x10"\<close> (16), \<^verbatim>\<open>"1e3"\<close> (1000) and
  \<^verbatim>\<open>" 42 "\<close>; \<^verbatim>\<open>"abc"\<close> (NaN) and \<^verbatim>\<open>"1.5"\<close> are refused.
\<close>

theorem id_is_Number_coercion:
  "(status (fst (get_api_users_id q req w)) = 400 \<longleftrightarrow> \<not> isInteger (Number (params_id req)))
 \<and> (status (fst (delete_api_users_id q req w)) = 400 \<longleftrightarrow> \<not> isInteger (Number (params_id req)))
 \<and> (fst (put_api_users_id q req w) =
       Response 400 (Some (JObj [(''error'', JStr ''Invalid user id'')]))
     \<longleftrightarrow> \<not> isInteger (Number (params_id req)))
 \<and> (isInteger (Number (params_id req)) \<longrightarrow>
       new_issued w (snd (get_api_users_id q req w)) =
         [(''SELECT id, name, email FROM users WHERE id = $1'', [JNum (Number (params_id req))])]
     \<and> new_issued w (snd (delete_api_users_id q req w)) =
         [(''DELETE FROM users WHERE id = $1 RETURNING id'', [JNum (Number (params_id req))])]
     \<and> (truthy (body_name req) \<and> truthy (body_email req) \<longrightarrow>
          new_issued w (snd (put_api_users_id q req w)) =
            [(''UPDATE users SET name = $1, email = $2 WHERE id = $3 RETURNING id, name, email'',
              [body_name req, body_email req, JNum (Number (params_id req))])])
     \<and> (fst (q ''SELECT id, name, email FROM users WHERE id = $1''
               [JNum (Number (params_id req))] (database w)) = Inr []
          \<longrightarrow> status (fst (get_api_users_id q req w)) = 404)
     \<and> (fst (q ''DELETE FROM users WHERE id = $1 RETURNING id''
               [JNum (Number (params_id req))] (database w)) = Inr []
          \<longrightarrow> status (fst (delete_api_users_id q req w)) = 404)
     \<and> (truthy (body_name req) \<and> truthy (body_email req)
        \<and> fst (q ''UPDATE users SET name = $1, email = $2 WHERE id = $3 RETURNING id, name, email''
                 [body_name req, body_email req, JNum (Number (params_id req))] (database w)) = Inr []
          \<longrightarrow> status (fst (put_api_users_id q req w)) = 404))
 \<and> Number (ustr ''-5'') = Fin (- 5) \<and> Number (ustr ''0x10'') = Fin 16
 \<and> Number (ustr ''1e3'') = Fin 1000 \<and> Number (ustr '' 42 '') = Fin 42
 \<and> isInteger (Number (ustr ''-5'')) \<and> isInteger (Number (ustr ''0x10''))
 \<and> isInteger (Number (ustr ''1e3'')) \<and> isInteger (Number (ustr '' 42 ''))
 \<and> Number (ustr ''abc'') = NaN \<and> Number (ustr ''1.5'') = Fin (3 / 2)
 \<and> \<not> isInteger (Number (ustr ''abc'')) \<and> \<not> isInteger (Number (ustr ''1.5''))"
proof -
  have statuses:
    "status (fst (get_api_users_id q req w)) = 400 \<longleftrightarrow> \<not> isInteger (Number (params_id req))"
    "status (fst (delete_api_users_id q req w)) = 400 \<longleftrightarrow> \<not> isInteger (Number (params_id req))"
    "fst (put_api_users_id q req w) =
       Response 400 (Some (JObj [(''error'', JStr ''Invalid user id'')]))
     \<longleftrightarrow> \<not> isInteger (Number (params_id req))"
    by (simp_all add: fst_handlers json_error_def split: sum.split)
  have forwarded:
    "isInteger (Number (params_id req)) \<longrightarrow>
       new_issued w (snd (get_api_users_id q req w)) =
         [(''SELECT id, name, email FROM users WHERE id = $1'', [JNum (Number (params_id req))])]
     \<and> new_issued w (snd (delete_api_users_id q req w)) =
         [(''DELETE FROM users WHERE id = $1 RETURNING id'', [JNum (Number (params_id req))])]
     \<and> (truthy (body_name req) \<and> truthy (body_email req) \<longrightarrow>
          new_issued w (snd (put_api_users_id q req w)) =
            [(''UPDATE users SET name = $1, email = $2 WHERE id = $3 RETURNING id, name, email'',
              [body_name req, body_email req, JNum (Number (params_id req))])])"
    by (simp add: new_issued_get_api_users_id new_issued_delete_api_users_id
          new_issued_put_api_users_id)
  have not_found:
    "isInteger (Number (params_id req)) \<longrightarrow>
       (fst (q ''SELECT id, name, email FROM users WHERE id = $1''
               [JNum (Number (params_id req))] (database w)) = Inr []
          \<longrightarrow> status (fst (get_api_users_id q req w)) = 404)
     \<and> (fst (q ''DELETE FROM users WHERE id = $1 RETURNING id''
               [JNum (Number (params_id req))] (database w)) = Inr []
          \<longrightarrow> status (fst (delete_api_users_id q req w)) = 404)
     \<and> (truthy (body_name req) \<and> truthy (body_email req)
        \<and> fst (q ''UPDATE users SET name = $1, email = $2 WHERE id = $3 RETURNING id, name, email''
                 [body_name req, body_email req, JNum (Number (params_id req))] (database w)) = Inr []
          \<longrightarrow> status (fst (put_api_users_id q req w)) = 404)"
    by (simp add: fst_handlers json_error_def)
  have examples:
    "Number (ustr ''-5'') = Fin (- 5)" "Number (ustr ''0x10'') = Fin 16"
    "Number (ustr ''1e3'') = Fin 1000" "Number (ustr '' 42 '') = Fin 42"
    "Number (ustr ''abc'') = NaN" "Number (ustr ''1.5'') = Fin (3 / 2)"
    by (simp_all add: Number_eval)
  have "\<lfloor>3 / 2 :: rat\<rfloor> = 1"
    by (rule floor_unique) simp_all
  then have half: "\<not> isInteger (Fin (3 / 2))"
    by simp
  show ?thesis
    using statuses forwarded not_found half by (simp add: examples)
qed


theorem id_is_Number_coercion_witness:
  "isInteger (Number (params_id req_hex))
 \<and> new_issued (fresh_world sample_db)
       (snd (get_api_users_id (users_table sample_conv) req_hex (fresh_world sample_db))) =
     [(''SELECT id, name, email FROM users WHERE id = $1'', [JNum (Fin 16)])]
 \<and> status (fst (get_api_users_id (users_table sample_conv) req_hex (fresh_world sample_db))) = 404
 \<and> status (fst (delete_api_users_id (users_table sample_conv) req_hex (fresh_world sample_db))) = 404"
proof -
  have int_id: "isInteger (Number (params_id req_hex))"
    by (simp add: req_hex_def Number_hex)
  have no_rows:
    "fst (users_table sample_conv ''SELECT id, name, email FROM users WHERE id = $1''
           [JNum (Number (params_id req_hex))] sample_db) = Inr []"
    "fst (users_table sample_conv ''DELETE FROM users WHERE id = $1 RETURNING id''
           [JNum (Number (params_id req_hex))] sample_db) = Inr []"
    by (simp_all add: users_table_def users_statement_def sample_db_def req_hex_def Number_hex
          id_param_def in_int4_def with_id_def)
  have coerced: "Number (params_id req_hex) = Fin 16"
    by (simp add: req_hex_def Number_hex)
  show ?thesis
    using id_is_Number_coercion [of "users_table sample_conv" req_hex "fresh_world sample_db"]
      int_id no_rows
    by (simp add: coerced)
qed

section \<open>Database failures\<close>

lemma console_console_error [simp]:
  "console (console_error a w) = console w @ [ConsoleError a]"
  by (simp add: console_error_def)

lemma console_console_log [simp]:
  "console (console_log a w) = console w @ [ConsoleLog a]"
  by (simp add: console_log_def)

text \<open>What a handler leaves on the console: the lines the listeners of the pool wrote
  while its statement was in flight, then, if the statement failed, the entry of its
  \<^verbatim>\<open>catch\<close> block.\<close>

lemma console_get_api_users:
  "console (snd (get_api_users q req w)) =
     console w
     @ map pool_listener
         (snd (snd (q ''SELECT id, name, email FROM users ORDER BY id'' [] (database w))))
     @ (case fst (q ''SELECT id, name, email FROM users ORDER BY id'' [] (database w)) of
          Inr rows \<Rightarrow> []
        | Inl e \<Rightarrow>
            [ConsoleError [Json (JObj [(''level'', JStr ''error''), (''msg'', JStr ''Error fetching users''),
               (''endpoint'', JStr ''/api/users''), (''error'', JStr (message e)),
               (''timestamp'', JStr (clock w))])]])"
  by (simp add: get_api_users_def logger_error_def split: prod.split sum.split)

lemma console_post_api_users:
  "console (snd (post_api_users q req w)) =
     (if \<not> truthy (body_name req) \<or> \<not> truthy (body_email req) then console w
      else
        console w
        @ map pool_listener
            (snd (snd (q ''INSERT INTO users (name, email) VALUES ($1, $2) RETURNING *''
                         [body_name req, body_email req] (database w))))
        @ (case fst (q ''INSERT INTO users (name, email) VALUES ($1, $2) RETURNING *''
                       [body_name req, body_email req] (database w)) of
             Inr rows \<Rightarrow> []
           | Inl e \<Rightarrow> [ConsoleError [Text ''Error creating user:'', ErrObj e]]))"
  by (simp add: post_api_users_def split: prod.split sum.split)

lemma console_get_api_users_id:
  "console (snd (get_api_users_id q req w)) =
     (if \<not> isInteger (Number (params_id req)) then console w
      else
        console w
        @ map pool_listener
            (snd (snd (q ''SELECT id, name, email FROM users WHERE id = $1''
                         [JNum (Number (params_id req))] (database w))))
        @ (case fst (q ''SELECT id, name, email FROM users WHERE id = $1''
                       [JNum (Number (params_id req))] (database w)) of
             Inr rows \<Rightarrow> []
           | Inl e \<Rightarrow> [ConsoleError [Text ''Error fetching user:'', ErrObj e]]))"
  by (simp add: get_api_users_id_def Let_def split: prod.split sum.split)

lemma console_put_api_users_id:
  "console (snd (put_api_users_id q req w)) =
     (if \<not> isInteger (Number (params_id req)) then console w
      else if \<not> truthy (body_name req) \<or> \<not> truthy (body_email req) then console w
      else
        console w
        @ map pool_listener
            (snd (snd (q ''UPDATE users SET name = $1, email = $2 WHERE id = $3 RETURNING id, name, email''
                         [body_name req, body_email req, JNum (Number (params_id req))] (database w))))
        @ (case fst (q ''UPDATE users SET name = $1, email = $2 WHERE id = $3 RETURNING id, name, email''
                       [body_name req, body_email req, JNum (Number (params_id req))] (database w)) of
             Inr rows \<Rightarrow> []
           | Inl e \<Rightarrow> [ConsoleError [Text ''Error updating user:'', ErrObj e]]))"
  by (simp add: put_api_users_id_def Let_def split: prod.split sum.split)

lemma console_delete_api_users_id:
  "console (snd (delete_api_users_id q req w)) =
     (if \<not> isInteger (Number (params_id req)) then console w
      else
        console w
        @ map pool_listener
            (snd (snd (q ''DELETE FROM users WHERE id = $1 RETURNING id''
                         [JNum (Number (params_id req))] (database w))))
        @ (case fst (q ''DELETE FROM users WHERE id = $1 RETURNING id''
                       [JNum (Number (params_id req))] (database w)) of
             Inr rows \<Rightarrow> []
           | Inl e \<Rightarrow> [ConsoleError [Text ''Error deleting user:'', ErrObj e]]))"
  by (simp add: delete_api_users_id_def Let_def split: prod.split sum.split)

lemmas console_handlers = console_get_api_users console_post_api_users console_get_api_users_id
  console_put_api_users_id console_delete_api_users_id

text \<open>
  Claim C5, as the code has it. When the database call of a handler fails, the handler
  catches the error and answers 500 with the body
  \<^verbatim>\<open>{"error": "Internal server error"}\<close>, whatever the error; nothing of the error
  reaches the response. The failure is written to the error console: by the list
  handler as one structured entry with the endpoint \<^verbatim>\<open>/api/users\<close> and the message
  of the error, by the four other handlers as a label naming the operation followed by
  the error object. That entry is the last line of the run and the only one the handler
  writes; before it come the lines the listeners of the pool wrote while the statement
  was in flight (\<^verbatim>\<open>Connected to PostgreSQL database\<close> when the pool opened a
  client).
\<close>

theorem database_failure_gives_500:
  "(fst (q ''SELECT id, name, email FROM users ORDER BY id'' [] (database w)) = Inl e \<longrightarrow>
      fst (get_api_users q req w) =
        Response 500 (Some (JObj [(''error'', JStr ''Internal server error'')]))
    \<and> console (snd (get_api_users q req w)) =
        console w
        @ map pool_listener
            (snd (snd (q ''SELECT id, name, email FROM users ORDER BY id'' [] (database w))))
        @ [ConsoleError [Json (JObj [(''level'', JStr ''error''), (''msg'', JStr ''Error fetching users''),
             (''endpoint'', JStr ''/api/users''), (''error'', JStr (message e)),
             (''timestamp'', JStr (clock w))])]])
 \<and> (truthy (body_name req) \<and> truthy (body_email req)
    \<and> fst (q ''INSERT INTO users (name, email) VALUES ($1, $2) RETURNING *''
             [body_name req, body_email req] (database w)) = Inl e \<longrightarrow>
      fst (post_api_users q req w) =
        Response 500 (Some (JObj [(''error'', JStr ''Internal server error'')]))
    \<and> console (snd (post_api_users q req w)) =
        console w
        @ map pool_listener
            (snd (snd (q ''INSERT INTO users (name, email) VALUES ($1, $2) RETURNING *''
                         [body_name req, body_email req] (database w))))
        @ [ConsoleError [Text ''Error creating user:'', ErrObj e]])
 \<and> (isInteger (Number (params_id req))
    \<and> fst (q ''SELECT id, name, email FROM users WHERE id = $1''
             [JNum (Number (params_id req))] (database w)) = Inl e \<longrightarrow>
      fst (get_api_users_id q req w) =
        Response 500 (Some (JObj [(''error'', JStr ''Internal server error'')]))
    \<and> console (snd (get_api_users_id q req w)) =
        console w
        @ map pool_listener
            (snd (snd (q ''SELECT id, name, email FROM users WHERE id = $1''
                         [JNum (Number (params_id req))] (database w))))
        @ [ConsoleError [Text ''Error fetching user:'', ErrObj e]])
 \<and> (isInteger (Number (params_id req)) \<and> truthy (body_name req) \<and> truthy (body_email req)
    \<and> fst (q ''UPDATE users SET name = $1, email = $2 WHERE id = $3 RETURNING id, name, email''
             [body_name req, body_email req, JNum (Number (params_id req))] (database w)) = Inl e \<longrightarrow>
      fst (put_api_users_id q req w) =
        Response 500 (Some (JObj [(''error'', JStr ''Internal server error'')]))
    \<and> console (snd (put_api_users_id q req w)) =
        console w
        @ map pool_listener
            (snd (snd (q ''UPDATE users SET name = $1, email = $2 WHERE id = $3 RETURNING id, name, email''
                         [body_name req, body_email req, JNum (Number (params_id req))] (database w))))
        @ [ConsoleError [Text ''Error updating user:'', ErrObj e]])
 \<and> (isInteger (Number (params_id req))
    \<and> fst (q ''DELETE FROM users WHERE id = $1 RETURNING id''
             [JNum (Number (params_id req))] (database w)) = Inl e \<longrightarrow>
      fst (delete_api_users_id q req w) =
        Response 500 (Some (JObj [(''error'', JStr ''Internal server error'')]))
    \<and> console (snd (delete_api_users_id q req w)) =
        console w
        @ map pool_listener
            (snd (snd (q ''DELETE FROM users WHERE id = $1 RETURNING id''
                         [JNum (Number (params_id req))] (database w))))
        @ [ConsoleError [Text ''Error deleting user:'', ErrObj e]])"
  by (simp add: fst_handlers console_handlers json_error_def)

text \<open>Two runs on a fresh process. The list request finds the server down: no client
  is opened, and the console holds the structured entry alone. The delete request
  carries an id outside the range of the column: the pool opens its first client, the
  server rejects the statement, and the console holds the line of the connect listener
  followed by the labelled error.\<close>

theorem database_failure_gives_500_witness:
  "fst (users_table sample_conv ''SELECT id, name, email FROM users ORDER BY id'' []
         (database (fresh_world offline_db))) = Inl (Error ''connection refused'')
 \<and> fst (get_api_users (users_table sample_conv) req_carol (fresh_world offline_db)) =
       Response 500 (Some (JObj [(''error'', JStr ''Internal server error'')]))
 \<and> console (snd (get_api_users (users_table sample_conv) req_carol (fresh_world offline_db))) =
       [ConsoleError [Json (JObj [(''level'', JStr ''error''), (''msg'', JStr ''Error fetching users''),
          (''endpoint'', JStr ''/api/users''), (''error'', JStr ''connection refused''),
          (''timestamp'', JStr ''2025-01-03T00:00:00.000Z'')])]]
 \<and> isInteger (Number (params_id req_big))
 \<and> fst (users_table sample_conv ''DELETE FROM users WHERE id = $1 RETURNING id''
         [JNum (Number (params_id req_big))] (database (fresh_world sample_db))) =
       Inl (Error ''value out of range for type integer'')
 \<and> fst (delete_api_users_id (users_table sample_conv) req_big (fresh_world sample_db)) =
       Response 500 (Some (JObj [(''error'', JStr ''Internal server error'')]))
 \<and> console (snd (delete_api_users_id (users_table sample_conv) req_big (fresh_world sample_db))) =
       [ConsoleLog [Text ''Connected to PostgreSQL database''],
        ConsoleError [Text ''Error deleting user:'',
                      ErrObj (Error ''value out of range for type integer'')]]"
proof -
  have down:
    "fst (users_table sample_conv ''SELECT id, name, email FROM users ORDER BY id'' []
           (database (fresh_world offline_db))) = Inl (Error ''connection refused'')"
    "snd (snd (users_table sample_conv ''SELECT id, name, email FROM users ORDER BY id'' []
           offline_db)) = []"
    by (simp_all add: users_table_def offline_db_def)
  have int_id: "isInteger (Number (params_id req_big))"
    by (simp add: req_big_def Number_big)
  have rejected:
    "fst (users_table sample_conv ''DELETE FROM users WHERE id = $1 RETURNING id''
           [JNum (Number (params_id req_big))] (database (fresh_world sample_db))) =
       Inl (Error ''value out of range for type integer'')"
    "snd (snd (users_table sample_conv ''DELETE FROM users WHERE id = $1 RETURNING id''
           [JNum (Number (params_id req_big))] sample_db)) = [Connect]"
    by (simp_all add: users_table_def users_statement_def sample_db_def req_big_def Number_big
          id_param_def in_int4_def)
  note list_run =
    database_failure_gives_500
      [of "users_table sample_conv" "fresh_world offline_db" "Error ''connection refused''" req_carol,
       THEN conjunct1]
  note delete_run =
    database_failure_gives_500
      [of "users_table sample_conv" "fresh_world sample_db"
          "Error ''value out of range for type integer''" req_big,
       THEN conjunct2, THEN conjunct2, THEN conjunct2, THEN conjunct2]
  have clock: "clock (fresh_world offline_db) = ''2025-01-03T00:00:00.000Z''"
    by (simp add: fresh_world_def)
  show ?thesis
    using list_run delete_run down int_id rejected
    by (simp add: clock)
qed

text \<open>
  The claim as stated asks for every failure to be logged with the name of the failing
  endpoint. A create request whose email is already stored is answered 500; the run
  leaves two lines on the console, the line of the connect listener and the label
  \<^verbatim>\<open>Error creating user:\<close> with the error, and the endpoint \<^verbatim>\<open>/api/users\<close> is
  in neither.
\<close>

theorem failed_create_logs_no_endpoint:
  "truthy (body_name req_dup) \<and> truthy (body_email req_dup)
 \<and> fst (post_api_users (users_table sample_conv) req_dup (fresh_world sample_db)) =
     Response 500 (Some (JObj [(''error'', JStr ''Internal server error'')]))
 \<and> console (snd (post_api_users (users_table sample_conv) req_dup (fresh_world sample_db))) =
     [ConsoleLog [Text ''Connected to PostgreSQL database''],
      ConsoleError [Text ''Error creating user:'',
                    ErrObj (Error ''duplicate key value violates unique constraint'')]]
 \<and> \<not> list_ex (entry_mentions ''/api/users'')
       (console (snd (post_api_users (users_table sample_conv) req_dup (fresh_world sample_db))))"
proof -
  have run:
    "users_table sample_conv ''INSERT INTO users (name, email) VALUES ($1, $2) RETURNING *''
       [body_name req_dup, body_email req_dup] sample_db =
     (Inl (Error ''duplicate key value violates unique constraint''),
      sample_db\<lparr>next_id := 4, connected := True\<rparr>, [Connect])"
    by (simp add: users_table_def users_statement_def sample_db_def req_dup_def pg_text_def
          text_ok_def in_int4_def)
  have fields: "truthy (body_name req_dup)" "truthy (body_email req_dup)"
    by (simp_all add: req_dup_def)
  have logged:
    "console (snd (post_api_users (users_table sample_conv) req_dup (fresh_world sample_db))) =
       [ConsoleLog [Text ''Connected to PostgreSQL database''],
        ConsoleError [Text ''Error creating user:'',
                      ErrObj (Error ''duplicate key value violates unique constraint'')]]"
    using fields by (simp add: console_post_api_users run)
  have answered:
    "fst (post_api_users (users_table sample_conv) req_dup (fresh_world sample_db)) =
       Response 500 (Some (JObj [(''error'', JStr ''Internal server error'')]))"
    using fields by (simp add: fst_post_api_users run json_error_def)
  have silent:
    "\<not> list_ex (entry_mentions ''/api/users'')
         [ConsoleLog [Text ''Connected to PostgreSQL database''],
          ConsoleError [Text ''Error creating user:'',
                        ErrObj (Error ''duplicate key value violates unique constraint'')]]"
    by simp
  show ?thesis
    using fields answered silent by (simp add: logged)
qed

section \<open>Startup\<close>

lemma listening_console [simp]:
  "listening (console_log a w) = listening w" "listening (console_error a w) = listening w"
  "exit_code (console_log a w) = exit_code w" "exit_code (console_error a w) = exit_code w"
  "issued (console_log a w) = issued w" "database (console_log a w) = database w"
  "database (console_error a w) = database w"
  by (simp_all add: console_log_def console_error_def)

lemma fst_initializeDatabase:
  "fst (initializeDatabase q fs dirname w) =
     (case readFileSync fs (path_join dirname ''schema.sql'') of
        Inl e \<Rightarrow> Inl e
      | Inr schemaSQL \<Rightarrow>
          (case fst (q schemaSQL [] (database w)) of Inl e \<Rightarrow> Inl e | Inr rows \<Rightarrow> Inr ()))"
  by (simp add: initializeDatabase_def Let_def split: sum.split prod.split)

lemma snd_initializeDatabase:
  "listening (snd (initializeDatabase q fs dirname w)) = listening w"
  "exit_code (snd (initializeDatabase q fs dirname w)) = exit_code w"
  "issued (snd (initializeDatabase q fs dirname w)) =
     (case readFileSync fs (path_join dirname ''schema.sql'') of
        Inl e \<Rightarrow> issued w
      | Inr schemaSQL \<Rightarrow> issued w @ [(schemaSQL, [])])"
  by (simp_all add: initializeDatabase_def Let_def split: sum.split prod.split)

lemma start_cases:
  "start q fs dirname env w =
     (let r = initializeDatabase q fs dirname w; w1 = snd r
      in case fst r of
           Inr u \<Rightarrow>
             (case listen_error env of
                None \<Rightarrow>
                  console_log
                    [Text (''Environment: '' @ (case NODE_ENV env of None \<Rightarrow> ''undefined'' | Some v \<Rightarrow> v))]
                    (console_log [Text (''Server running on port '' @ port_text env)]
                       (w1\<lparr>listening := True\<rparr>))
              | Some e \<Rightarrow>
                  (console_error [Text ''Failed to start server:'', ErrObj e] w1)\<lparr>exit_code := Some 1\<rparr>)
         | Inl e \<Rightarrow>
             (console_error [Text ''Failed to start server:'', ErrObj e] w1)\<lparr>exit_code := Some 1\<rparr>)"
  by (cases "initializeDatabase q fs dirname w")
    (simp add: start_def Let_def split: sum.split option.split)

lemma listening_start:
  "listening (start q fs dirname env w) =
     (case fst (initializeDatabase q fs dirname w) of
        Inr u \<Rightarrow> (case listen_error env of None \<Rightarrow> True | Some e \<Rightarrow> listening w)
      | Inl e \<Rightarrow> listening w)"
  by (simp add: start_cases Let_def snd_initializeDatabase split: sum.split option.split)

lemma exit_code_start:
  "exit_code (start q fs dirname env w) =
     (case fst (initializeDatabase q fs dirname w) of
        Inr u \<Rightarrow> (case listen_error env of None \<Rightarrow> exit_code w | Some e \<Rightarrow> Some 1)
      | Inl e \<Rightarrow> Some 1)"
  by (simp add: start_cases Let_def snd_initializeDatabase split: sum.split option.split)

lemma issued_start:
  "issued (start q fs dirname env w) = issued (snd (initializeDatabase q fs dirname w))"
  by (simp add: start_cases Let_def split: sum.split option.split)

text \<open>The console of a start that succeeds, the pool opening its first client for the
  schema; these are the lines \<^verbatim>\<open>docs/19-backend-deployment.md\<close> shows for the
  container of the backend.\<close>

lemma console_start_sample:
  "console (start connecting sample_fs ''/app/src'' sample_env (fresh_world sample_db)) =
     [ConsoleLog [Text ''Initializing database schema...''],
      ConsoleLog [Text ''Connected to PostgreSQL database''],
      ConsoleLog [Text ''Database schema initialized successfully''],
      ConsoleLog [Text ''Server running on port 3000''],
      ConsoleLog [Text ''Environment: production'']]"
  by (simp add: start_def initializeDatabase_def readFileSync_def path_join_def sample_fs_def
        sample_env_def connecting_def port_text_def console_log_def pool_query_def Let_def)

text \<open>
  Claim C8. In a fresh process (no listener, no exit code): schema initialization fails
  exactly when \<^verbatim>\<open>schema.sql\<close> cannot be read or the pool rejects its text; when it
  fails, \<^verbatim>\<open>start\<close> ends with exit code 1 and the listener was never bound; and when
  the listener is bound, schema initialization had succeeded and no exit code is set.
\<close>

theorem start_listens_only_after_schema:
  assumes "\<not> listening w" and "exit_code w = None"
  shows
  "(fst (initializeDatabase q fs dirname w) = Inl e \<longleftrightarrow>
      readFileSync fs (path_join dirname ''schema.sql'') = Inl e
    \<or> (\<exists>schemaSQL. readFileSync fs (path_join dirname ''schema.sql'') = Inr schemaSQL
          \<and> fst (q schemaSQL [] (database w)) = Inl e))
 \<and> (fst (initializeDatabase q fs dirname w) = Inl e \<longrightarrow>
      exit_code (start q fs dirname env w) = Some 1
    \<and> \<not> listening (start q fs dirname env w))
 \<and> (listening (start q fs dirname env w) \<longrightarrow>
      fst (initializeDatabase q fs dirname w) = Inr ()
    \<and> exit_code (start q fs dirname env w) = None)"
proof -
  have fails:
    "fst (initializeDatabase q fs dirname w) = Inl e \<longleftrightarrow>
       readFileSync fs (path_join dirname ''schema.sql'') = Inl e
     \<or> (\<exists>schemaSQL. readFileSync fs (path_join dirname ''schema.sql'') = Inr schemaSQL
           \<and> fst (q schemaSQL [] (database w)) = Inl e)"
    by (auto simp: fst_initializeDatabase split: sum.splits)
  have exits:
    "fst (initializeDatabase q fs dirname w) = Inl e \<longrightarrow>
       exit_code (start q fs dirname env w) = Some 1 \<and> \<not> listening (start q fs dirname env w)"
    using assms by (simp add: listening_start exit_code_start)
  have bound:
    "listening (start q fs dirname env w) \<longrightarrow>
       fst (initializeDatabase q fs dirname w) = Inr ()
     \<and> exit_code (start q fs dirname env w) = None"
    using assms by (auto simp: listening_start exit_code_start split: sum.splits option.splits)
  show ?thesis
    using fails exits bound by blast
qed

theorem start_listens_only_after_schema_witness:
  "\<not> listening (fresh_world offline_db) \<and> exit_code (fresh_world offline_db) = None
 \<and> fst (initializeDatabase (users_table sample_conv) sample_fs ''/app/src'' (fresh_world offline_db)) =
     Inl (Error ''connection refused'')
 \<and> exit_code (start (users_table sample_conv) sample_fs ''/app/src'' sample_env
               (fresh_world offline_db)) = Some 1
 \<and> \<not> listening (start (users_table sample_conv) sample_fs ''/app/src'' sample_env
               (fresh_world offline_db))"
proof -
  have fresh: "\<not> listening (fresh_world offline_db)" "exit_code (fresh_world offline_db) = None"
    by simp_all
  have failed:
    "fst (initializeDatabase (users_table sample_conv) sample_fs ''/app/src''
           (fresh_world offline_db)) = Inl (Error ''connection refused'')"
    by (simp add: fst_initializeDatabase readFileSync_def path_join_def sample_fs_def
          users_table_def offline_db_def)
  show ?thesis
    using start_listens_only_after_schema
      [OF fresh, of "users_table sample_conv" sample_fs "''/app/src''"
         "Error ''connection refused''" sample_env]
      failed fresh
    by simp
qed

section \<open>Migrations\<close>

lemma run_files_accepted:
  assumes readable: "\<forall>f \<in> set fl. files fs (path_join dir f) \<noteq> None"
    and accepted: "accepted_in_turn q (map (\<lambda>f. the (files fs (path_join dir f))) fl) (database w)"
  shows "fst (run_files q fs dir fl w) = Inr ()
       \<and> issued (snd (run_files q fs dir fl w)) =
           issued w @ map (\<lambda>f. (the (files fs (path_join dir f)), [])) fl"
  using readable accepted
proof (induction fl arbitrary: w)
  case Nil
  show ?case by simp
next
  case (Cons name rest)
  from Cons.prems(1) obtain sql where sql: "files fs (path_join dir name) = Some sql"
    by auto
  from Cons.prems(2) sql obtain rows d' events
    where ok: "q sql [] (database w) = (Inr rows, d', events)"
      and later: "accepted_in_turn q (map (\<lambda>f. the (files fs (path_join dir f))) rest) d'"
    by (auto split: prod.splits sum.splits)
  have rest: "\<forall>f \<in> set rest. files fs (path_join dir f) \<noteq> None"
    using Cons.prems(1) by simp
  note IH = Cons.IH [OF rest]
  show ?case
    using sql ok later by (simp add: readFileSync_def Let_def pool_query_def IH)
qed

text \<open>Whatever the files and the pool do, the statements a run submits are the texts of
  an initial part of the list of files, in the order of the list.\<close>

lemma run_files_prefix:
  "\<exists>k \<le> length fl.
     issued (snd (run_files q fs dir fl w)) =
       issued w @ map (\<lambda>f. (the (files fs (path_join dir f)), [])) (take k fl)"
proof (induction fl arbitrary: w)
  case Nil
  show ?case by simp
next
  case (Cons name rest)
  let ?w1 = "console_log [Text (''Running migration: '' @ name)] w"
  show ?case
  proof (cases "files fs (path_join dir name)")
    case None
    then have "issued (snd (run_files q fs dir (name # rest) w)) = issued w"
      by (simp add: readFileSync_def Let_def)
    then show ?thesis
      by (intro exI [of _ 0]) (simp del: run_files.simps)
  next
    case (Some sql)
    show ?thesis
    proof (cases "fst (q sql [] (database w))")
      case (Inl e)
      then have "issued (snd (run_files q fs dir (name # rest) w)) = issued w @ [(sql, [])]"
        using Some by (simp add: readFileSync_def Let_def split: prod.split sum.split)
      then show ?thesis
        using Some by (intro exI [of _ 1]) (simp del: run_files.simps)
    next
      case (Inr rows)
      let ?w2 = "console_log [Text (''Migration '' @ name @ '' completed'')]
                   (snd (pool_query q sql [] ?w1))"
      have step: "run_files q fs dir (name # rest) w = run_files q fs dir rest ?w2"
        using Some Inr
        by (simp add: readFileSync_def Let_def snd_pool_query split: prod.split sum.split)
      have sent: "issued (snd (pool_query q sql [] ?w1)) = issued w @ [(sql, [])]"
        by (simp add: snd_pool_query)
      from Cons.IH [of ?w2] obtain k where "k \<le> length rest"
        and "issued (snd (run_files q fs dir rest ?w2)) =
               issued ?w2 @ map (\<lambda>f. (the (files fs (path_join dir f)), [])) (take k rest)"
        by blast
      then show ?thesis
        using Some step sent by (intro exI [of _ "Suc k"]) (simp del: run_files.simps)
    qed
  qed
qed

lemma set_migration_files:
  "set (migration_files names) = {f \<in> set names. endsWith f ''.sql''}"
  by (auto simp: migration_files_def)

text \<open>
  Claim C7, as the code has it. \<^verbatim>\<open>runMigrations\<close>, when it is called: if the
  migrations directory does not exist it returns normally and has only written one line
  to the console (no statement, no error). If the directory lists \<open>names\<close>, the files it
  takes are the entries ending in \<^verbatim>\<open>.sql\<close>, sorted lexicographically; when each of
  them can be read and the pool accepts the statement of each, submitted in that order,
  it returns normally and has submitted the text of each file, in that order, and
  nothing else. In every case the statements it has submitted are the texts of an
  initial part of that list. The list is sorted, holds exactly the \<^verbatim>\<open>.sql\<close>
  entries, and holds none twice when the listing holds none twice.
\<close>

theorem runMigrations_applies_sorted_files:
  "(\<not> existsSync fs (path_join dirname ''../migrations'') \<longrightarrow>
      runMigrations q fs dirname w =
        (Inr (), console_log [Text ''No migrations directory found, skipping migrations''] w))
 \<and> (dirs fs (path_join dirname ''../migrations'') = Some names
    \<and> (\<forall>f \<in> set (migration_files names).
          files fs (path_join (path_join dirname ''../migrations'') f) \<noteq> None)
    \<and> accepted_in_turn q
        (map (\<lambda>f. the (files fs (path_join (path_join dirname ''../migrations'') f)))
           (migration_files names))
        (database w) \<longrightarrow>
      fst (runMigrations q fs dirname w) = Inr ()
    \<and> new_issued w (snd (runMigrations q fs dirname w)) =
        map (\<lambda>f. (the (files fs (path_join (path_join dirname ''../migrations'') f)), []))
          (migration_files names))
 \<and> (dirs fs (path_join dirname ''../migrations'') = Some names \<longrightarrow>
      (\<exists>k \<le> length (migration_files names).
         new_issued w (snd (runMigrations q fs dirname w)) =
           map (\<lambda>f. (the (files fs (path_join (path_join dirname ''../migrations'') f)), []))
             (take k (migration_files names))))
 \<and> sorted (migration_files names)
 \<and> set (migration_files names) = {f \<in> set names. endsWith f ''.sql''}
 \<and> (distinct names \<longrightarrow> distinct (migration_files names))"
proof -
  have absent:
    "\<not> existsSync fs (path_join dirname ''../migrations'') \<longrightarrow>
       runMigrations q fs dirname w =
         (Inr (), console_log [Text ''No migrations directory found, skipping migrations''] w)"
    by (simp add: runMigrations_def Let_def)
  have run: "runMigrations q fs dirname w =
      run_files q fs (path_join dirname ''../migrations'') (migration_files names) w"
    if "dirs fs (path_join dirname ''../migrations'') = Some names"
    using that by (simp add: runMigrations_def Let_def existsSync_def readdirSync_def)
  have applied:
    "fst (runMigrations q fs dirname w) = Inr ()
     \<and> new_issued w (snd (runMigrations q fs dirname w)) =
         map (\<lambda>f. (the (files fs (path_join (path_join dirname ''../migrations'') f)), []))
           (migration_files names)"
    if listing: "dirs fs (path_join dirname ''../migrations'') = Some names"
      and readable: "\<forall>f \<in> set (migration_files names).
          files fs (path_join (path_join dirname ''../migrations'') f) \<noteq> None"
      and accepted: "accepted_in_turn q
          (map (\<lambda>f. the (files fs (path_join (path_join dirname ''../migrations'') f)))
             (migration_files names))
          (database w)"
    using run_files_accepted [OF readable accepted]
    by (simp add: run [OF listing] new_issued_def)
  have initial:
    "\<exists>k \<le> length (migration_files names).
       new_issued w (snd (runMigrations q fs dirname w)) =
         map (\<lambda>f. (the (files fs (path_join (path_join dirname ''../migrations'') f)), []))
           (take k (migration_files names))"
    if listing: "dirs fs (path_join dirname ''../migrations'') = Some names"
  proof -
    from run_files_prefix [of "migration_files names" q fs "path_join dirname ''../migrations''" w]
    obtain k where "k \<le> length (migration_files names)"
      and "issued (snd (run_files q fs (path_join dirname ''../migrations'')
                          (migration_files names) w)) =
             issued w
             @ map (\<lambda>f. (the (files fs (path_join (path_join dirname ''../migrations'') f)), []))
                 (take k (migration_files names))"
      by blast
    then show ?thesis
      by (intro exI [of _ k]) (simp add: run [OF listing] new_issued_def)
  qed
  have order: "sorted (migration_files names)"
    by (simp add: migration_files_def)
  have once: "distinct names \<longrightarrow> distinct (migration_files names)"
    by (simp add: migration_files_def)
  show ?thesis
    using absent applied initial order once set_migration_files [of names] by blast
qed

lemma sample_listing:
  "dirs sample_fs (path_join ''/app/src'' ''../migrations'') =
     Some [''002_add_index.sql'', ''README.md'', ''001_add_users_table.sql'']"
  by (simp add: sample_fs_def path_join_def)

lemma sample_migration_files:
  "migration_files [''002_add_index.sql'', ''README.md'', ''001_add_users_table.sql''] =
     [''001_add_users_table.sql'', ''002_add_index.sql'']"
  by (simp add: migration_files_def endsWith_def)

theorem runMigrations_applies_sorted_files_witness:
  "dirs sample_fs (path_join ''/app/src'' ''../migrations'') =
     Some [''002_add_index.sql'', ''README.md'', ''001_add_users_table.sql'']
 \<and> accepted_in_turn accepting
       [''ALTER TABLE users ADD COLUMN IF NOT EXISTS phone VARCHAR(20)'',
        ''CREATE INDEX IF NOT EXISTS idx_users_phone ON users(phone)'']
       (database (fresh_world sample_db))
 \<and> fst (runMigrations accepting sample_fs ''/app/src'' (fresh_world sample_db)) = Inr ()
 \<and> new_issued (fresh_world sample_db)
       (snd (runMigrations accepting sample_fs ''/app/src'' (fresh_world sample_db))) =
     [(''ALTER TABLE users ADD COLUMN IF NOT EXISTS phone VARCHAR(20)'', []),
      (''CREATE INDEX IF NOT EXISTS idx_users_phone ON users(phone)'', [])]"
proof -
  have readable:
    "\<forall>f \<in> set (migration_files [''002_add_index.sql'', ''README.md'', ''001_add_users_table.sql'']).
       files sample_fs (path_join (path_join ''/app/src'' ''../migrations'') f) \<noteq> None"
    by (simp add: sample_migration_files sample_fs_def path_join_def)
  have texts:
    "map (\<lambda>f. the (files sample_fs (path_join (path_join ''/app/src'' ''../migrations'') f)))
       (migration_files [''002_add_index.sql'', ''README.md'', ''001_add_users_table.sql'']) =
     [''ALTER TABLE users ADD COLUMN IF NOT EXISTS phone VARCHAR(20)'',
      ''CREATE INDEX IF NOT EXISTS idx_users_phone ON users(phone)'']"
    by (simp add: sample_migration_files sample_fs_def path_join_def)
  have in_turn:
    "accepted_in_turn accepting
       [''ALTER TABLE users ADD COLUMN IF NOT EXISTS phone VARCHAR(20)'',
        ''CREATE INDEX IF NOT EXISTS idx_users_phone ON users(phone)'']
       (database (fresh_world sample_db))"
    by (simp add: accepting_def)
  have accepted:
    "accepted_in_turn accepting
       (map (\<lambda>f. the (files sample_fs (path_join (path_join ''/app/src'' ''../migrations'') f)))
          (migration_files [''002_add_index.sql'', ''README.md'', ''001_add_users_table.sql'']))
       (database (fresh_world sample_db))"
    using in_turn by (simp only: texts)
  have "fst (runMigrations accepting sample_fs ''/app/src'' (fresh_world sample_db)) = Inr ()
      \<and> new_issued (fresh_world sample_db)
            (snd (runMigrations accepting sample_fs ''/app/src'' (fresh_world sample_db))) =
          map (\<lambda>f. (the (files sample_fs
                            (path_join (path_join ''/app/src'' ''../migrations'') f)), []))
            (migration_files [''002_add_index.sql'', ''README.md'', ''001_add_users_table.sql''])"
    by (rule mp [OF conjunct1 [OF conjunct2 [OF runMigrations_applies_sorted_files]]])
       (intro conjI sample_listing readable accepted)
  then show ?thesis
    using sample_listing in_turn
    by (simp add: sample_migration_files sample_fs_def path_join_def)
qed

text \<open>
  The claim as stated has the migrations applied at process startup. \<^verbatim>\<open>start\<close>
  calls \<^verbatim>\<open>initializeDatabase\<close> only, and \<^verbatim>\<open>database.js\<close> neither calls nor
  exports \<^verbatim>\<open>runMigrations\<close>: with a migrations directory that holds two SQL files,
  startup ends with the listener bound and the schema the only statement submitted.
\<close>

theorem startup_applies_no_migration:
  "dirs sample_fs (path_join ''/app/src'' ''../migrations'') =
     Some [''002_add_index.sql'', ''README.md'', ''001_add_users_table.sql'']
 \<and> listening (start accepting sample_fs ''/app/src'' sample_env (fresh_world sample_db))
 \<and> exit_code (start accepting sample_fs ''/app/src'' sample_env (fresh_world sample_db)) = None
 \<and> issued (start accepting sample_fs ''/app/src'' sample_env (fresh_world sample_db)) =
     [(''CREATE TABLE IF NOT EXISTS users (id SERIAL PRIMARY KEY)'', [])]"
  by (simp add: sample_listing listening_start exit_code_start issued_start
        fst_initializeDatabase snd_initializeDatabase readFileSync_def path_join_def
        sample_fs_def sample_env_def accepting_def)

section \<open>Create, then get\<close>

lemma snd_post_api_users:
  "snd (post_api_users q req w) =
     (if \<not> truthy (body_name req) \<or> \<not> truthy (body_email req) then w
      else
        let sql = ''INSERT INTO users (name, email) VALUES ($1, $2) RETURNING *'';
            vals = [body_name req, body_email req];
            r = q sql vals (database w);
            w' = w\<lparr>database := fst (snd r), issued := issued w @ [(sql, vals)],
                   console := console w @ map pool_listener (snd (snd r))\<rparr>
        in case fst r of
             Inr rows \<Rightarrow> w'
           | Inl e \<Rightarrow> console_error [Text ''Error creating user:'', ErrObj e] w')"
  by (simp add: post_api_users_def Let_def split: prod.split sum.split)

lemma snd_delete_api_users_id:
  "snd (delete_api_users_id q req w) =
     (if \<not> isInteger (Number (params_id req)) then w
      else
        let sql = ''DELETE FROM users WHERE id = $1 RETURNING id'';
            vals = [JNum (Number (params_id req))];
            r = q sql vals (database w);
            w' = w\<lparr>database := fst (snd r), issued := issued w @ [(sql, vals)],
                   console := console w @ map pool_listener (snd (snd r))\<rparr>
        in case fst r of
             Inr rows \<Rightarrow> w'
           | Inl e \<Rightarrow> console_error [Text ''Error deleting user:'', ErrObj e] w')"
  by (simp add: delete_api_users_id_def Let_def split: prod.split sum.split)

text \<open>
  Claim C1. Let the table satisfy its invariant and let the body supply a non-empty
  name \<open>n\<close> and a non-empty email \<open>e\<close>, both strings. If the create operation answers
  201 with the created row, then the get-by-id operation, run on the world that create
  left and with a path id that coerces to the id of that row, answers 200 with a row
  whose name is \<open>n\<close>, whose email is \<open>e\<close> and whose id is the id create returned.
\<close>

theorem create_then_get_round_trip:
  assumes ok: "table_ok (database w)"
    and name: "body_name req = JStr n" "n \<noteq> []"
    and email: "body_email req = JStr e" "e \<noteq> []"
    and created: "post_api_users (users_table conv) req w = (Response 201 (Some row), w1)"
    and same_id: "JNum (Number (params_id req')) = get_field ''id'' row"
  shows "\<exists>row' w2.
           get_api_users_id (users_table conv) req' w1 = (Response 200 (Some row'), w2)
         \<and> get_field ''name'' row' = JStr n
         \<and> get_field ''email'' row' = JStr e
         \<and> get_field ''id'' row' = get_field ''id'' row"
proof -
  let ?d = "database w"
  let ?u = "\<lparr>user_id = next_id ?d, user_name = n, user_email = e, user_created_at = db_now ?d\<rparr>"
  let ?insert = "''INSERT INTO users (name, email) VALUES ($1, $2) RETURNING *''"
  from created have resp: "fst (post_api_users (users_table conv) req w) = Response 201 (Some row)"
    and world: "snd (post_api_users (users_table conv) req w) = w1"
    by simp_all
  have up: "online ?d"
  proof (rule ccontr)
    assume "\<not> online ?d"
    then show False
      using resp name email
      by (simp add: fst_post_api_users users_table_offline json_error_def)
  qed
  have texts: "text_ok n \<and> text_ok e"
  proof (rule ccontr)
    assume "\<not> (text_ok n \<and> text_ok e)"
    then show False
      using resp name email up
      by (auto simp: fst_post_api_users users_table_online users_statement_insert pg_text_def
            json_error_def)
  qed
  have range: "in_int4 (next_id ?d)"
  proof (rule ccontr)
    assume "\<not> in_int4 (next_id ?d)"
    then show False
      using resp name email up texts
      by (simp add: fst_post_api_users users_table_online users_statement_insert pg_text_def
            json_error_def)
  qed
  have fresh: "e \<notin> set (map user_email (users ?d))"
  proof
    assume "e \<in> set (map user_email (users ?d))"
    then show False
      using resp name email up texts range
      by (simp add: fst_post_api_users users_table_online users_statement_insert pg_text_def
            json_error_def)
  qed
  have row: "row = row_all ?u"
    using resp name email up texts range fresh
    by (simp add: fst_post_api_users users_table_online users_statement_insert pg_text_def
          rows0_def)
  have w1: "users (database w1) = users ?d @ [?u]" "online (database w1)"
    using world name email up texts range fresh
    by (auto simp: snd_post_api_users users_table_online users_statement_insert pg_text_def
          Let_def)
  have id: "Number (params_id req') = Fin (of_int (next_id ?d))"
    using same_id by (simp add: row row_all_def json_id_def get_field_def)
  have below: "list_all (\<lambda>u. user_id u < next_id ?d) (users ?d)"
    using ok by (simp add: table_ok_def list_all_iff)
  have found: "with_id (next_id ?d) (users ?d @ [?u]) = [?u]"
    using with_id_absent [OF below] by (simp add: with_id_def)
  have "fst (get_api_users_id (users_table conv) req' w1) = Response 200 (Some (row_json ?u))"
    using w1 found range
    by (simp add: fst_get_api_users_id id users_table_online users_statement_select_id rows0_def)
  moreover have "get_field ''name'' (row_json ?u) = JStr n"
    and "get_field ''email'' (row_json ?u) = JStr e"
    and "get_field ''id'' (row_json ?u) = get_field ''id'' row"
    by (simp_all add: row row_json_def row_all_def json_id_def get_field_def)
  ultimately show ?thesis
    by (metis prod.collapse)
qed


lemma Number_3: "Number (ustr ''3'') = Fin 3"
  by (simp add: Number_eval)

lemma Number_2: "Number (ustr ''2'') = Fin 2"
  by (simp add: Number_eval)

lemma table_ok_sample_db: "table_ok sample_db"
  by (simp add: table_ok_def sample_db_def in_int4_def)

theorem create_then_get_round_trip_witness:
  "table_ok (database (fresh_world sample_db))
 \<and> fst (post_api_users (users_table sample_conv) req_carol (fresh_world sample_db)) =
     Response 201 (Some (JObj [(''id'', JNum (Fin 3)), (''name'', JStr ''Carol''),
       (''email'', JStr ''carol@example.com''), (''created_at'', JStr ''2025-01-03T00:00:00.000Z'')]))
 \<and> (\<exists>row' w2.
       get_api_users_id (users_table sample_conv) req_three
         (snd (post_api_users (users_table sample_conv) req_carol (fresh_world sample_db))) =
       (Response 200 (Some row'), w2)
     \<and> get_field ''name'' row' = JStr ''Carol''
     \<and> get_field ''email'' row' = JStr ''carol@example.com'')"
proof -
  let ?row = "JObj [(''id'', JNum (Fin 3)), (''name'', JStr ''Carol''),
       (''email'', JStr ''carol@example.com''), (''created_at'', JStr ''2025-01-03T00:00:00.000Z'')]"
  have ok: "table_ok (database (fresh_world sample_db))"
    by (simp add: table_ok_sample_db)
  have fields: "body_name req_carol = JStr ''Carol''" "''Carol'' \<noteq> []"
    "body_email req_carol = JStr ''carol@example.com''" "''carol@example.com'' \<noteq> []"
    by (simp_all add: req_carol_def)
  have answer:
    "fst (post_api_users (users_table sample_conv) req_carol (fresh_world sample_db)) =
       Response 201 (Some ?row)"
    by (simp add: fst_post_api_users req_carol_def users_table_online users_statement_insert
          sample_db_def pg_text_def text_ok_def rows0_def row_all_def json_id_def in_int4_def)
  then have created:
    "post_api_users (users_table sample_conv) req_carol (fresh_world sample_db) =
       (Response 201 (Some ?row),
        snd (post_api_users (users_table sample_conv) req_carol (fresh_world sample_db)))"
    by (metis prod.collapse)
  have same_id: "JNum (Number (params_id req_three)) = get_field ''id'' ?row"
    by (simp add: req_three_def Number_3 get_field_def)
  from create_then_get_round_trip [OF ok fields created same_id]
  obtain row' w2 where
    "get_api_users_id (users_table sample_conv) req_three
       (snd (post_api_users (users_table sample_conv) req_carol (fresh_world sample_db))) =
     (Response 200 (Some row'), w2)"
    and "get_field ''name'' row' = JStr ''Carol''"
    and "get_field ''email'' row' = JStr ''carol@example.com''"
    by blast
  with ok answer show ?thesis
    by blast
qed

section \<open>Delete\<close>

lemma absent_in_table:
  assumes up: "online (database w)"
    and range: "in_int4 k"
    and none: "with_id k (users (database w)) = []"
    and id: "Number (params_id req) = Fin (of_int k)"
  shows "fst (get_api_users_id (users_table conv) req w) =
           Response 404 (Some (JObj [(''error'', JStr ''User not found'')]))"
    and "fst (delete_api_users_id (users_table conv) req w) =
           Response 404 (Some (JObj [(''error'', JStr ''User not found'')]))"
    and "users (database (snd (delete_api_users_id (users_table conv) req w))) =
           users (database w)"
proof -
  show "fst (get_api_users_id (users_table conv) req w) =
           Response 404 (Some (JObj [(''error'', JStr ''User not found'')]))"
    using up range none
    by (simp add: fst_get_api_users_id id users_table_online users_statement_select_id
          json_error_def)
  show "fst (delete_api_users_id (users_table conv) req w) =
           Response 404 (Some (JObj [(''error'', JStr ''User not found'')]))"
    using up range none
    by (simp add: fst_delete_api_users_id id users_table_online users_statement_delete
          json_error_def)
  from none have "filter (\<lambda>v. user_id v \<noteq> k) (users (database w)) = users (database w)"
    by (simp add: with_id_def filter_empty_conv filter_id_conv)
  then show "users (database (snd (delete_api_users_id (users_table conv) req w))) =
           users (database w)"
    using up range
    by (simp add: snd_delete_api_users_id id users_table_online users_statement_delete Let_def)
qed

lemma present_in_table:
  assumes ok: "table_ok (database w)"
    and up: "online (database w)"
    and stored: "u \<in> set (users (database w))"
    and id: "Number (params_id req) = Fin (of_int (user_id u))"
  shows "fst (delete_api_users_id (users_table conv) req w) = Response 204 None"
    and "users (database (snd (delete_api_users_id (users_table conv) req w))) =
           remove1 u (users (database w))"
    and "online (database (snd (delete_api_users_id (users_table conv) req w)))"
proof -
  from ok have ids: "distinct (map user_id (users (database w)))"
    by (simp add: table_ok_def)
  from ok stored have range: "in_int4 (user_id u)"
    by (simp add: table_ok_def list_all_iff)
  have one: "with_id (user_id u) (users (database w)) = [u]"
    using with_id_member [OF ids stored] .
  have kept: "filter (\<lambda>v. user_id v \<noteq> user_id u) (users (database w)) =
      remove1 u (users (database w))"
    using remove_by_id [OF ids stored] .
  show "fst (delete_api_users_id (users_table conv) req w) = Response 204 None"
    using up range one
    by (simp add: fst_delete_api_users_id id users_table_online users_statement_delete)
  show "users (database (snd (delete_api_users_id (users_table conv) req w))) =
           remove1 u (users (database w))"
    using up range one kept
    by (simp add: snd_delete_api_users_id id users_table_online users_statement_delete Let_def)
  show "online (database (snd (delete_api_users_id (users_table conv) req w)))"
    using up range one
    by (simp add: snd_delete_api_users_id id users_table_online users_statement_delete Let_def)
qed

text \<open>
  Claim C9. Let the table satisfy its invariant, the database be up, \<open>u\<close> be a stored
  row and the path id coerce to the id of \<open>u\<close>. DELETE answers 204 with an empty body
  and leaves the table with exactly the row \<open>u\<close> removed: every other row is kept in
  place, there is one row less, and \<open>u\<close> is no longer stored. On the world that leaves,
  a GET of the same id answers 404, and a second DELETE answers 404 and leaves the table
  as it was.
\<close>

theorem delete_then_not_found:
  assumes ok: "table_ok (database w)"
    and up: "online (database w)"
    and stored: "u \<in> set (users (database w))"
    and id: "Number (params_id req) = Fin (of_int (user_id u))"
  shows "fst (delete_api_users_id (users_table conv) req w) = Response 204 None
       \<and> users (database (snd (delete_api_users_id (users_table conv) req w))) =
           remove1 u (users (database w))
       \<and> length (users (database (snd (delete_api_users_id (users_table conv) req w)))) + 1 =
           length (users (database w))
       \<and> u \<notin> set (users (database (snd (delete_api_users_id (users_table conv) req w))))
       \<and> fst (get_api_users_id (users_table conv) req
                (snd (delete_api_users_id (users_table conv) req w))) =
           Response 404 (Some (JObj [(''error'', JStr ''User not found'')]))
       \<and> fst (delete_api_users_id (users_table conv) req
                (snd (delete_api_users_id (users_table conv) req w))) =
           Response 404 (Some (JObj [(''error'', JStr ''User not found'')]))
       \<and> users (database (snd (delete_api_users_id (users_table conv) req
                (snd (delete_api_users_id (users_table conv) req w))))) =
           remove1 u (users (database w))"
proof -
  let ?d = "database w"
  let ?w1 = "snd (delete_api_users_id (users_table conv) req w)"
  from ok have ids: "distinct (map user_id (users ?d))"
    by (simp add: table_ok_def)
  then have rows: "distinct (users ?d)"
    by (simp add: distinct_map)
  from ok stored have range: "in_int4 (user_id u)"
    by (simp add: table_ok_def list_all_iff)
  note first = present_in_table [OF ok up stored id, of conv]
  have up1: "online (database ?w1)"
    by (rule first)
  have "filter (\<lambda>v. user_id v \<noteq> user_id u) (users ?d) = remove1 u (users ?d)"
    using remove_by_id [OF ids stored] .
  then have "with_id (user_id u) (remove1 u (users ?d)) = []"
    by (metis (mono_tags, lifting) filter_empty_conv mem_Collect_eq set_filter with_id_def)
  then have gone: "with_id (user_id u) (users (database ?w1)) = []"
    by (simp add: first)
  note second = absent_in_table [OF up1 range gone id, of conv]
  have len: "length (remove1 u (users ?d)) + 1 = length (users ?d)"
    using stored by (simp add: length_remove1) (metis length_pos_if_in_set Suc_pred)
  have absent: "u \<notin> set (remove1 u (users ?d))"
    using rows by simp
  show ?thesis
    using first second len absent by simp
qed


theorem delete_then_not_found_witness:
  "table_ok (database (fresh_world sample_db)) \<and> online (database (fresh_world sample_db))
 \<and> Number (params_id req_two) = Fin (of_int 2)
 \<and> fst (delete_api_users_id (users_table sample_conv) req_two (fresh_world sample_db)) =
     Response 204 None
 \<and> users (database (snd (delete_api_users_id (users_table sample_conv) req_two
                           (fresh_world sample_db)))) =
     [\<lparr>user_id = 1, user_name = ''Alice'', user_email = ''alice@example.com'',
       user_created_at = ''2025-01-01T00:00:00.000Z''\<rparr>]
 \<and> fst (get_api_users_id (users_table sample_conv) req_two
          (snd (delete_api_users_id (users_table sample_conv) req_two (fresh_world sample_db)))) =
     Response 404 (Some (JObj [(''error'', JStr ''User not found'')]))
 \<and> fst (delete_api_users_id (users_table sample_conv) req_two
          (snd (delete_api_users_id (users_table sample_conv) req_two (fresh_world sample_db)))) =
     Response 404 (Some (JObj [(''error'', JStr ''User not found'')]))"
proof -
  let ?bob = "\<lparr>user_id = 2, user_name = ''Bob'', user_email = ''bob@example.com'',
                user_created_at = ''2025-01-02T00:00:00.000Z''\<rparr>"
  have ok: "table_ok (database (fresh_world sample_db))"
    by (simp add: table_ok_sample_db)
  have up: "online (database (fresh_world sample_db))"
    by (simp add: sample_db_def)
  have stored: "?bob \<in> set (users (database (fresh_world sample_db)))"
    by (simp add: sample_db_def)
  have id: "Number (params_id req_two) = Fin (of_int (user_id ?bob))"
    by (simp add: req_two_def Number_2)
  have rest: "remove1 ?bob (users sample_db) =
      [\<lparr>user_id = 1, user_name = ''Alice'', user_email = ''alice@example.com'',
        user_created_at = ''2025-01-01T00:00:00.000Z''\<rparr>]"
    by (simp add: sample_db_def)
  show ?thesis
    using delete_then_not_found [OF ok up stored id, of sample_conv] ok up id
    by (simp add: rest)
qed

section \<open>The list endpoint\<close>

text \<open>
  Claim C4 is about \<^verbatim>\<open>GET /api/users\<close>. With the database up, the body of the list
  handler answers 200 with the stored rows in ascending order of id, whatever their
  order in the table, none lost and none added. The arrow function around that body is
  declared without \<^verbatim>\<open>async\<close> (see \<open>get_api_users\<close>), so the source as written does
  not run this body.
\<close>

lemma get_api_users_body:
  assumes "online (database w)"
  shows "fst (get_api_users (users_table conv) req w) =
           Response 200 (Some (JArr (map row_json (sort_key user_id (users (database w))))))"
    and "sorted (map user_id (sort_key user_id (users (database w))))"
    and "set (sort_key user_id (users (database w))) = set (users (database w))"
    and "length (sort_key user_id (users (database w))) = length (users (database w))"
  using assms
  by (simp_all add: fst_get_api_users users_table_online users_statement_select_all)

lemma get_api_users_body_sample:
  "fst (get_api_users (users_table sample_conv) req_two (fresh_world sample_db)) =
     Response 200 (Some (JArr
       [JObj [(''id'', JNum (Fin 1)), (''name'', JStr ''Alice''), (''email'', JStr ''alice@example.com'')],
        JObj [(''id'', JNum (Fin 2)), (''name'', JStr ''Bob''), (''email'', JStr ''bob@example.com'')]]))"
  by (simp add: fst_get_api_users users_table_online users_statement_select_all sample_db_def
        row_json_def json_id_def)

end
